theory Spec2Isabelle
  imports Main "HOL-Library.Word"
begin

unbundle bit_operations_syntax

section \<open>The NVRAM UIO driver and its user-space access test\<close>

text \<open>
  A shallow embedding of \<^verbatim>\<open>driver/nvram_uio.c\<close> (the PCI probe routine) and of
  \<^verbatim>\<open>userspace/userspace_access_test.c\<close> (device discovery, register mapping, LED
  control, teardown). Kernel and libc services are inputs of the model: their
  results are fields of an environment record, and the calls the program makes
  are appended to a trace in program order.

  Machine types: \<^verbatim>\<open>uint8_t\<close> and \<^verbatim>\<open>unsigned char\<close> are \<^typ>\<open>8 word\<close>,
  \<^verbatim>\<open>unsigned int\<close> is \<^typ>\<open>32 word\<close>, \<^verbatim>\<open>unsigned long\<close> and pointers are
  \<^typ>\<open>64 word\<close> (LP64), the PCI device identifier is \<^typ>\<open>16 word\<close>.
\<close>

subsection \<open>The header \<^verbatim>\<open>umem.h\<close>\<close>

text \<open>
  Both source files include \<^verbatim>\<open>umem.h\<close>, which is not among the sources. The
  macros the two files take from it are the fields of this record, so that
  every function below is parametric in the header.
\<close>

record umem_h =
  DRIVER_NAME :: string
  CSR_MAPPING_INDEX :: nat
  MAGIC_NUMBERS_PER_DEV :: nat
  MEMCTRLSTATUS_MAGIC :: int
  MEMCTRLSTATUS_MEMORY :: int
  MEMCTRLSTATUS_BATTERY :: int
  MEMCTRLCMD_LEDCTRL :: int
  MEMCTRLCMD_ERRCTRL :: int
  LED_FAULT :: int
  LED_FLIP :: int
  LED_OFF :: int
  LED_ON :: int
  LED_FLASH_3_5 :: int
  LED_FLASH_7_0 :: int

subsection \<open>Outcomes, effects and the environment of the user-space program\<close>

text \<open>
  A function of the program either returns, or ends the process through
  \<^verbatim>\<open>exit\<close>, or leaves defined C behaviour.
\<close>

datatype 'a outcome = Ret 'a | Exit int | Undefined

definition EXIT_SUCCESS :: int where
  "EXIT_SUCCESS = 0"

definition EXIT_FAILURE :: int where
  "EXIT_FAILURE = 1"

definition PATH_MAX :: nat where
  "PATH_MAX = 4096"

definition UIO_CLASS_ROOT :: string where
  "UIO_CLASS_ROOT = ''/sys/class/uio''"

definition NL :: char where
  "NL = CHR 0x0A"

definition NUL :: char where
  "NUL = CHR 0x00"

text \<open>Arguments of a \<^verbatim>\<open>printf\<close> call: \<^verbatim>\<open>%s\<close> takes a string, \<^verbatim>\<open>%x\<close> a number.\<close>

datatype arg = Str string | Num nat

text \<open>
  The logged effects: text written to standard output, \<^verbatim>\<open>perror\<close>, the files
  opened, the resource calls with their results, and the volatile register
  accesses.
\<close>

datatype event =
    Printf string "arg list"
  | Perror
  | Fopen string
  | Open_rdwr string int
  | Mmap "64 word" int int "64 word"
  | Munmap "64 word" "64 word" int
  | Close int
  | Load "64 word" "8 word"
  | Store "64 word" "8 word"

record world =
  mem :: "64 word \<Rightarrow> 8 word"
  trace :: "event list"

definition log :: "event \<Rightarrow> world \<Rightarrow> world" where
  "log ev w = w\<lparr>trace := trace w @ [ev]\<rparr>"

datatype d_type = DT_UNKNOWN | DT_FIFO | DT_CHR | DT_DIR | DT_BLK | DT_REG | DT_LNK | DT_SOCK | DT_WHT

record dirent =
  d_name :: string
  d_type :: d_type

text \<open>
  What the operating system answers: the entries \<^verbatim>\<open>readdir\<close> enumerates under the
  class root (\<open>None\<close> when \<^verbatim>\<open>opendir\<close> fails), the content of each file that
  \<^verbatim>\<open>fopen\<close> can open for reading, the value \<^verbatim>\<open>fscanf\<close> converts with the format
  \<^verbatim>\<open>0x%x\<close> (\<open>None\<close> when it converts nothing), and the results of \<^verbatim>\<open>open\<close>,
  \<^verbatim>\<open>mmap\<close>, \<^verbatim>\<open>munmap\<close> and \<^verbatim>\<open>getpagesize\<close>.
\<close>

record env =
  uio_dir :: "dirent list option"
  files :: "string \<Rightarrow> string option"
  fscanf_0x_x :: "string \<Rightarrow> 32 word option"
  open_rc :: "string \<Rightarrow> int"
  mmap_rc :: "64 word \<Rightarrow> int \<Rightarrow> int \<Rightarrow> 64 word"
  munmap_rc :: "64 word \<Rightarrow> 64 word \<Rightarrow> int"
  getpagesize :: int

definition MAP_FAILED :: "64 word" where
  "MAP_FAILED = - 1"

record nvram_uio_context =
  device_name :: string
  csr_mmap_offset :: "32 word"
  csr_mmap_size :: "32 word"
  device_fd :: int
  csr :: "64 word"
  memctrlstatus_magic :: "64 word"
  memctrlstatus_memory :: "64 word"
  memctrlstatus_battery :: "64 word"
  memctrlcmd_ledctrl :: "64 word"
  memctrlcmd_errctrl :: "64 word"

text \<open>The context after \<^verbatim>\<open>memset (context, 0, sizeof (nvram_uio_context))\<close>.\<close>

definition zero_context :: nvram_uio_context where
  "zero_context =
     \<lparr>device_name = [], csr_mmap_offset = 0, csr_mmap_size = 0, device_fd = 0, csr = 0,
      memctrlstatus_magic = 0, memctrlstatus_memory = 0, memctrlstatus_battery = 0,
      memctrlcmd_ledctrl = 0, memctrlcmd_errctrl = 0\<rparr>"

text \<open>\<^verbatim>\<open>snprintf (buf, n, ...)\<close> keeps at most \<open>n - 1\<close> characters of the formatted text.\<close>

definition snprintf :: "nat \<Rightarrow> string \<Rightarrow> string" where
  "snprintf n s = take (n - 1) s"

text \<open>Sequencing: the rest of the program runs only when the first part returns.\<close>

definition and_then ::
  "'a outcome \<times> world \<Rightarrow> ('a \<Rightarrow> world \<Rightarrow> 'b outcome \<times> world) \<Rightarrow> 'b outcome \<times> world" where
  "and_then r f =
     (case r of
        (Ret x, w) \<Rightarrow> f x w
      | (Exit n, w) \<Rightarrow> (Exit n, w)
      | (Undefined, w) \<Rightarrow> (Undefined, w))"

subsection \<open>\<^verbatim>\<open>find_uio_device\<close>\<close>

text \<open>
  \<^verbatim>\<open>fgets (buf, n, file)\<close> on a freshly opened file: it stores at most \<open>n - 1\<close>
  characters and stops after a newline; at end of file with nothing read it
  returns \<^verbatim>\<open>NULL\<close>.
\<close>

fun fgets_chars :: "nat \<Rightarrow> string \<Rightarrow> string" where
  "fgets_chars 0 cs = []"
| "fgets_chars (Suc k) [] = []"
| "fgets_chars (Suc k) (c # cs) = (if c = NL then [c] else c # fgets_chars k cs)"

definition fgets :: "nat \<Rightarrow> string \<Rightarrow> string option" where
  "fgets n content = (if content = [] then None else Some (fgets_chars (n - 1) content))"

text \<open>The C string held by a buffer ends before the first NUL character.\<close>

definition c_str :: "string \<Rightarrow> string" where
  "c_str buf = takeWhile (\<lambda>c. c \<noteq> NUL) buf"

text \<open>
  Lines 80 to 84 of the test program: a newline in the last position of the
  string is overwritten by NUL, then \<^verbatim>\<open>strcmp\<close> compares with the driver name.
  When the string is empty the program reads \<^verbatim>\<open>uio_driver_name[-1]\<close>, outside the
  buffer: \<open>None\<close>.
\<close>

definition driver_name_matches :: "umem_h \<Rightarrow> string \<Rightarrow> bool option" where
  "driver_name_matches h buf =
     (let s = c_str buf in
      if s = [] then None
      else Some ((if last s = NL then butlast s else s) = c_str (DRIVER_NAME h)))"

definition name_pathname :: "dirent \<Rightarrow> string" where
  "name_pathname d = snprintf PATH_MAX (UIO_CLASS_ROOT @ ''/'' @ d_name d @ ''/name'')"

text \<open>
  The \<^verbatim>\<open>while\<close> loop over the entries \<^verbatim>\<open>readdir\<close> delivers. It ends at the first
  entry that sets \<^verbatim>\<open>found_nvram_uio_device\<close>, whose name is returned, or at the
  end of the directory.
\<close>

fun scan_entries :: "umem_h \<Rightarrow> env \<Rightarrow> dirent list \<Rightarrow> world \<Rightarrow> string option outcome \<times> world" where
  "scan_entries h e [] w = (Ret None, w)"
| "scan_entries h e (d # ds) w =
     (if d_type d = DT_DIR \<or> d_type d = DT_LNK then
        (let w1 = log (Fopen (name_pathname d)) w in
         case files e (name_pathname d) of
           None \<Rightarrow> scan_entries h e ds w1
         | Some content \<Rightarrow>
             (case fgets 80 content of
                None \<Rightarrow> scan_entries h e ds w1
              | Some buf \<Rightarrow>
                  (case driver_name_matches h buf of
                     None \<Rightarrow> (Undefined, w1)
                   | Some True \<Rightarrow> (Ret (Some (d_name d)), w1)
                   | Some False \<Rightarrow> scan_entries h e ds w1)))
      else scan_entries h e ds w)"

definition find_uio_device :: "umem_h \<Rightarrow> env \<Rightarrow> world \<Rightarrow> nvram_uio_context outcome \<times> world" where
  "find_uio_device h e w =
     (case uio_dir e of
        None \<Rightarrow>
          (Exit EXIT_FAILURE, log (Printf ''Failed to open %s\<newline>'' [Str UIO_CLASS_ROOT]) w)
      | Some ds \<Rightarrow>
          and_then (scan_entries h e ds w)
            (\<lambda>found w'.
               case found of
                 Some name \<Rightarrow> (Ret (zero_context\<lparr>device_name := name\<rparr>), w')
               | None \<Rightarrow>
                   (Exit EXIT_FAILURE,
                    log (Printf ''Failed to find entry for %s under %s\<newline>''
                           [Str (DRIVER_NAME h), Str UIO_CLASS_ROOT]) w')))"

subsection \<open>\<^verbatim>\<open>read_uio_mapping_param\<close> and \<^verbatim>\<open>get_uio_device_parameters\<close>\<close>

text \<open>The decimal digits \<^verbatim>\<open>%u\<close> prints.\<close>

fun decimal :: "nat \<Rightarrow> string" where
  "decimal n =
     (if n < 10 then [char_of (48 + n)]
      else decimal (n div 10) @ [char_of (48 + n mod 10)])"

declare decimal.simps [simp del]

definition read_uio_mapping_param ::
  "env \<Rightarrow> string \<Rightarrow> nat \<Rightarrow> string \<Rightarrow> world \<Rightarrow> 32 word outcome \<times> world" where
  "read_uio_mapping_param e name mapping_index param_name w =
     (let uio_param_pathname =
            snprintf PATH_MAX
              (UIO_CLASS_ROOT @ ''/'' @ name @ ''/maps/map'' @ decimal mapping_index @ ''/'' @ param_name);
          w1 = log (Fopen uio_param_pathname) w;
          failed =
            (Exit EXIT_FAILURE,
             log (Printf ''Failed to read value from %s\<newline>'' [Str uio_param_pathname]) w1)
      in case files e uio_param_pathname of
           None \<Rightarrow> failed
         | Some content \<Rightarrow>
             (case fscanf_0x_x e content of
                None \<Rightarrow> failed
              | Some param_value \<Rightarrow> (Ret param_value, w1)))"

definition get_uio_device_parameters ::
  "umem_h \<Rightarrow> env \<Rightarrow> nvram_uio_context \<Rightarrow> world \<Rightarrow> nvram_uio_context outcome \<times> world" where
  "get_uio_device_parameters h e context w =
     and_then (read_uio_mapping_param e (device_name context) (CSR_MAPPING_INDEX h) ''offset'' w)
       (\<lambda>off w1.
          and_then (read_uio_mapping_param e (device_name context) (CSR_MAPPING_INDEX h) ''size'' w1)
            (\<lambda>sz w2. (Ret (context\<lparr>csr_mmap_offset := off, csr_mmap_size := sz\<rparr>), w2)))"

subsection \<open>\<^verbatim>\<open>open_uio_device\<close> and \<^verbatim>\<open>close_uio_device\<close>\<close>

text \<open>
  \<^verbatim>\<open>&context->csr[MACRO]\<close> is the address \<^verbatim>\<open>csr\<close> advanced by the macro's value,
  an \<^verbatim>\<open>int\<close> converted to the width of a pointer.
\<close>

definition index_addr :: "64 word \<Rightarrow> int \<Rightarrow> 64 word" where
  "index_addr base i = base + word_of_int i"

definition open_uio_device ::
  "umem_h \<Rightarrow> env \<Rightarrow> nvram_uio_context \<Rightarrow> world \<Rightarrow> nvram_uio_context outcome \<times> world" where
  "open_uio_device h e context w =
     (let device_pathname = snprintf PATH_MAX (''/dev/'' @ device_name context);
          fd = open_rc e device_pathname;
          context1 = context\<lparr>device_fd := fd\<rparr>;
          w1 = log (Open_rdwr device_pathname fd) w
      in if fd = - 1 then
           (Exit EXIT_FAILURE,
            log Perror (log (Printf ''Failed to open %s\<newline>'' [Str device_pathname]) w1))
         else
           (let len = (ucast (csr_mmap_size context1) :: 64 word);
                off = int (CSR_MAPPING_INDEX h) * getpagesize e;
                mapped = mmap_rc e len fd off;
                w2 = log (Mmap len fd off mapped) w1
            in if mapped = MAP_FAILED then
                 (Exit EXIT_FAILURE,
                  log Perror
                    (log (Printf ''Failed to map csr registers for %s\<newline>''
                            [Str (device_name context1)]) w2))
               else
                 (let base = mapped + ucast (csr_mmap_offset context1)
                  in (Ret (context1
                        \<lparr>csr := base,
                         memctrlstatus_magic := index_addr base (MEMCTRLSTATUS_MAGIC h),
                         memctrlstatus_memory := index_addr base (MEMCTRLSTATUS_MEMORY h),
                         memctrlstatus_battery := index_addr base (MEMCTRLSTATUS_BATTERY h),
                         memctrlcmd_ledctrl := index_addr base (MEMCTRLCMD_LEDCTRL h),
                         memctrlcmd_errctrl := index_addr base (MEMCTRLCMD_ERRCTRL h)\<rparr>), w2))))"

definition close_uio_device ::
  "env \<Rightarrow> nvram_uio_context \<Rightarrow> world \<Rightarrow> nvram_uio_context outcome \<times> world" where
  "close_uio_device e context w =
     (let len = (ucast (csr_mmap_size context) :: 64 word);
          rc = munmap_rc e (csr context) len;
          w1 = log (Munmap (csr context) len rc) w
      in if rc \<noteq> 0 then
           (Exit EXIT_FAILURE,
            log (Printf ''Failed to munmap %s\<newline>'' [Str (device_name context)]) w1)
         else (Ret (context\<lparr>csr := 0\<rparr>), log (Close (device_fd context)) w1))"

text \<open>
  The path names the program formats: the attribute file of one mapping
  parameter (line 119) and the device special file (line 154).
\<close>

definition mapping_param_pathname :: "string \<Rightarrow> nat \<Rightarrow> string \<Rightarrow> string" where
  "mapping_param_pathname name mapping_index param_name =
     snprintf PATH_MAX
       (UIO_CLASS_ROOT @ ''/'' @ name @ ''/maps/map'' @ decimal mapping_index @ ''/'' @ param_name)"

definition device_pathname :: "string \<Rightarrow> string" where
  "device_pathname name = snprintf PATH_MAX (''/dev/'' @ name)"

text \<open>
  What reading one mapping parameter yields when it succeeds: the file opens
  and \<^verbatim>\<open>fscanf\<close> converts a value.
\<close>

definition mapping_param_value :: "env \<Rightarrow> string \<Rightarrow> nat \<Rightarrow> string \<Rightarrow> 32 word option" where
  "mapping_param_value e name mapping_index param_name =
     (case files e (mapping_param_pathname name mapping_index param_name) of
        None \<Rightarrow> None
      | Some content \<Rightarrow> fscanf_0x_x e content)"

subsection \<open>\<^verbatim>\<open>set_led\<close>\<close>

text \<open>
  The byte \<^verbatim>\<open>set_led\<close> stores, from the byte it loaded. The operands of \<^verbatim>\<open><<\<close>,
  \<^verbatim>\<open>~\<close>, \<^verbatim>\<open>&\<close>, \<^verbatim>\<open>|\<close> and \<^verbatim>\<open>^\<close> are promoted to the 32-bit \<^verbatim>\<open>int\<close>, and each
  compound assignment converts back to \<^verbatim>\<open>uint8_t\<close>. A shift count that is
  negative or not below the width of \<^verbatim>\<open>int\<close> is undefined in C: \<open>None\<close>. Bits
  shifted into or beyond the sign bit are kept or dropped as the compiler of
  the Linux kernel and its tools does (two's complement, no trap).
\<close>

definition set_led_value :: "umem_h \<Rightarrow> int \<Rightarrow> 8 word \<Rightarrow> 8 word \<Rightarrow> 8 word option" where
  "set_led_value h shift state led =
     (if shift < 0 \<or> 32 \<le> shift then None
      else if uint state = LED_FLIP h then
        Some (ucast ((ucast led :: 32 word) XOR push_bit (nat shift) 1))
      else
        (let led1 = (ucast ((ucast led :: 32 word) AND NOT (push_bit (nat shift) 3)) :: 8 word)
         in Some (ucast ((ucast led1 :: 32 word) OR push_bit (nat shift) (ucast state)))))"

definition set_led ::
  "umem_h \<Rightarrow> nvram_uio_context \<Rightarrow> int \<Rightarrow> 8 word \<Rightarrow> world \<Rightarrow> unit outcome \<times> world" where
  "set_led h context shift state w =
     (let p = memctrlcmd_ledctrl context;
          led = mem w p;
          w1 = log (Load p led) w
      in case set_led_value h shift state led of
           None \<Rightarrow> (Undefined, w1)
         | Some led' \<Rightarrow> (Ret (), log (Store p led') (w1\<lparr>mem := (mem w1)(p := led')\<rparr>)))"

subsection \<open>\<^verbatim>\<open>main\<close>\<close>

text \<open>One of the five \<^verbatim>\<open>printf\<close> calls of \<^verbatim>\<open>main\<close>: a volatile load, then the output.\<close>

definition print_register :: "string \<Rightarrow> 64 word \<Rightarrow> world \<Rightarrow> unit outcome \<times> world" where
  "print_register fmt p w =
     (let v = mem w p
      in (Ret (), log (Printf fmt [Num (unat v)]) (log (Load p v) w)))"

text \<open>An \<^verbatim>\<open>int\<close> macro passed for the \<^verbatim>\<open>unsigned char state\<close> parameter.\<close>

definition to_uchar :: "int \<Rightarrow> 8 word" where
  "to_uchar i = word_of_int i"

definition main :: "umem_h \<Rightarrow> env \<Rightarrow> world \<Rightarrow> int outcome \<times> world" where
  "main h e w =
     and_then (find_uio_device h e w) (\<lambda>c0 w.
     and_then (get_uio_device_parameters h e c0 w) (\<lambda>c1 w.
     and_then (open_uio_device h e c1 w) (\<lambda>context w.
     and_then (print_register ''memctrlstatus_magic=0x%x\<newline>'' (memctrlstatus_magic context) w) (\<lambda>_ w.
     and_then (print_register ''memctrlstatus_memory=0x%x\<newline>'' (memctrlstatus_memory context) w) (\<lambda>_ w.
     and_then (print_register ''memctrlstatus_battery=0x%x\<newline>'' (memctrlstatus_battery context) w) (\<lambda>_ w.
     and_then (print_register ''memctrlcmd_ledctrl=0x%x\<newline>'' (memctrlcmd_ledctrl context) w) (\<lambda>_ w.
     and_then (print_register ''memctrlcmd_errctrl=0x%x\<newline>'' (memctrlcmd_errctrl context) w) (\<lambda>_ w.
     and_then (set_led h context (LED_FAULT h) (to_uchar (LED_ON h)) w) (\<lambda>_ w.
     and_then (set_led h context (LED_FAULT h) (to_uchar (LED_FLASH_7_0 h)) w) (\<lambda>_ w.
     and_then (set_led h context (LED_FAULT h) (to_uchar (LED_FLASH_3_5 h)) w) (\<lambda>_ w.
     and_then (set_led h context (LED_FAULT h) (to_uchar (LED_OFF h)) w) (\<lambda>_ w.
     and_then (close_uio_device e context w) (\<lambda>_ w.
       (Ret EXIT_SUCCESS, w))))))))))))))"

section \<open>The kernel driver: \<^verbatim>\<open>nvram_uio_pci_probe\<close>\<close>

text \<open>
  Error numbers and the number of mappings of a \<^verbatim>\<open>struct uio_info\<close>, from the
  kernel's headers.
\<close>

definition ENOMEM :: int where
  "ENOMEM = 12"

definition ENODEV :: int where
  "ENODEV = 19"

definition MAX_UIO_MAPS :: nat where
  "MAX_UIO_MAPS = 5"

datatype memtype = UIO_MEM_NONE | UIO_MEM_PHYS | UIO_MEM_LOGICAL | UIO_MEM_VIRTUAL

record uio_mem =
  mem_name :: string
  addr :: "64 word"
  size :: "64 word"
  memtype :: memtype
  internal_addr :: "64 word"

record uio_info =
  name :: string
  version :: string
  mems :: "nat \<Rightarrow> uio_mem"
  irq :: "32 word"

text \<open>The structure \<^verbatim>\<open>kzalloc\<close> returns: every byte zero.\<close>

definition zero_mem :: uio_mem where
  "zero_mem = \<lparr>mem_name = [], addr = 0, size = 0, memtype = UIO_MEM_NONE, internal_addr = 0\<rparr>"

definition zero_info :: uio_info where
  "zero_info = \<lparr>name = [], version = [], mems = (\<lambda>_. zero_mem), irq = 0\<rparr>"

text \<open>The kernel services the probe routine calls, in the order it calls them.\<close>

datatype kcall =
    Kzalloc
  | Pci_enable_device
  | Pci_write_config_byte
  | Pci_set_master
  | Dev_printk string
  | Pci_set_dma_mask
  | Pci_request_regions
  | Ioremap_nocache "64 word" "64 word"
  | Readb "64 word"
  | Uio_register_device
  | Pci_set_drvdata
  | Iounmap "64 word"
  | Pci_release_regions
  | Pci_disable_device
  | Kfree

text \<open>
  What the kernel and the hardware answer during one probe: the results of the
  services, the resource of BAR 0, the device identifier and interrupt of the
  \<^verbatim>\<open>pci_dev\<close>, the bytes \<^verbatim>\<open>readb\<close> delivers, the page size, and the indeterminate
  initial content of the local array \<^verbatim>\<open>magic_numbers\<close>.
\<close>

record kenv =
  kzalloc_ok :: bool
  pci_enable_device_rc :: int
  pci_set_dma_mask_rc :: int
  pci_request_regions_rc :: int
  pci_resource_start :: "64 word"
  pci_resource_len :: "64 word"
  ioremap_nocache_rc :: "64 word \<Rightarrow> 64 word \<Rightarrow> 64 word"
  readb :: "64 word \<Rightarrow> 8 word"
  uio_register_device_rc :: int
  dev_device :: "16 word"
  dev_irq :: "32 word"
  PAGE_SIZE :: "64 word"
  stack :: "nat \<Rightarrow> int"

text \<open>Line 69: the length of the region, page aligned in \<^verbatim>\<open>unsigned long\<close> arithmetic.\<close>

definition page_align :: "64 word \<Rightarrow> 64 word \<Rightarrow> 64 word" where
  "page_align page_size csr_len = ((csr_len + page_size - 1) div page_size) * page_size"

text \<open>
  An assignment to \<^verbatim>\<open>magic_numbers[i]\<close>. The array has
  \<^verbatim>\<open>MAGIC_NUMBERS_PER_DEV + 1\<close> elements; a store beyond them is undefined: \<open>None\<close>.
\<close>

definition store_magic :: "nat \<Rightarrow> nat \<Rightarrow> int \<Rightarrow> (nat \<Rightarrow> int) option \<Rightarrow> (nat \<Rightarrow> int) option" where
  "store_magic n i v arr =
     (case arr of
        None \<Rightarrow> None
      | Some a \<Rightarrow> if i < n + 1 then Some (a(i := v)) else None)"

text \<open>The \<^verbatim>\<open>switch (dev->device)\<close> of lines 85 to 105.\<close>

definition select_magic_numbers :: "nat \<Rightarrow> 16 word \<Rightarrow> (nat \<Rightarrow> int) \<Rightarrow> (nat \<Rightarrow> int) option" where
  "select_magic_numbers n device arr =
     (if device = 0x5415 then
        store_magic n 1 0x100 (store_magic n 0 0x59 (Some arr))
      else if device = 0x5425 then
        store_magic n 2 0x100 (store_magic n 1 0x5E (store_magic n 0 0x5C (Some arr)))
      else if device = 0x6155 then
        store_magic n 1 0x100 (store_magic n 0 0x99 (Some arr))
      else store_magic n 0 0x100 (Some arr))"

text \<open>
  The \<^verbatim>\<open>for\<close> loop of lines 108 to 114, from index \<open>i\<close> on; its value is the final
  \<^verbatim>\<open>magic_number_ok\<close>.
\<close>

function magic_scan :: "nat \<Rightarrow> (nat \<Rightarrow> int) \<Rightarrow> int \<Rightarrow> nat \<Rightarrow> bool" where
  "magic_scan n magic_numbers magic_number i =
     (if i < n then
        (if magic_numbers i = magic_number then True
         else if magic_numbers i \<ge> 0x100 then False
         else magic_scan n magic_numbers magic_number (Suc i))
      else False)"
  by pat_completeness auto
termination
  by (relation "measure (\<lambda>(n, magic_numbers, magic_number, i). n - i)") auto

declare magic_scan.simps [simp del]

definition out_free :: "kcall list" where
  "out_free = [Kfree]"

definition out_disable :: "kcall list" where
  "out_disable = Pci_disable_device # out_free"

definition out_release :: "kcall list" where
  "out_release = Pci_release_regions # out_disable"

definition out_unmap :: "uio_info \<Rightarrow> kcall list" where
  "out_unmap info = Iounmap (internal_addr (mems info 0)) # out_release"

definition magic_invalid :: kcall where
  "magic_invalid = Dev_printk ''Magic number 0x%02x invalid for device 0x%04x\<newline>''"

text \<open>
  The probe routine. Its value is the returned \<^verbatim>\<open>int\<close> together with the
  \<^verbatim>\<open>uio_info\<close> left as driver data (\<open>None\<close> when the routine fails), and the
  calls it made.
\<close>

definition nvram_uio_pci_probe ::
  "umem_h \<Rightarrow> kenv \<Rightarrow> (int \<times> uio_info option) outcome \<times> kcall list" where
  "nvram_uio_pci_probe h k =
     (if \<not> kzalloc_ok k then (Ret (- ENOMEM, None), [Kzalloc])
      else if pci_enable_device_rc k \<noteq> 0 then
        (Ret (- ENODEV, None), [Kzalloc, Pci_enable_device] @ out_free)
      else
        (let t1 = [Kzalloc, Pci_enable_device, Pci_write_config_byte, Pci_set_master,
                   Dev_printk ''Curtiss Wright controller found (PCI Mem Module (Battery Backup))\<newline>'',
                   Pci_set_dma_mask]
         in if pci_set_dma_mask_rc k \<noteq> 0 then
              (Ret (- ENOMEM, None), t1 @ [Dev_printk ''NO suitable DMA found\<newline>''])
            else if pci_request_regions_rc k \<noteq> 0 then
              (Ret (- ENODEV, None),
               t1 @ [Pci_request_regions, Dev_printk ''Unable to request memory region\<newline>'']
                  @ out_disable)
            else
              (let t2 = t1 @ [Pci_request_regions];
                   csr_base = pci_resource_start k;
                   csr_len0 = pci_resource_len k
               in if csr_base = 0 \<or> csr_len0 = 0 then (Ret (- ENODEV, None), t2 @ out_release)
                  else if MAX_UIO_MAPS \<le> CSR_MAPPING_INDEX h then (Undefined, t2)
                  else
                    (let csr_len = page_align (PAGE_SIZE k) csr_len0;
                         mapped = ioremap_nocache_rc k csr_base csr_len;
                         t3 = t2 @ [Ioremap_nocache csr_base csr_len]
                     in if mapped = 0 then
                          (Ret (- ENODEV, None),
                           t3 @ [Dev_printk ''Unable to remap memory region\<newline>''] @ out_release)
                        else
                          (let info1 = zero_info
                                 \<lparr>mems := (mems zero_info)
                                    (CSR_MAPPING_INDEX h :=
                                       \<lparr>mem_name = ''csr'', addr = csr_base, size = csr_len,
                                        memtype = UIO_MEM_PHYS, internal_addr = mapped\<rparr>)\<rparr>;
                               t4 = t3 @ [Dev_printk ''CSR 0x%08llx -> 0x%p (0x%llx)\<newline>'']
                           in case select_magic_numbers (MAGIC_NUMBERS_PER_DEV h) (dev_device k) (stack k) of
                                None \<Rightarrow> (Undefined, t4)
                              | Some magic_numbers \<Rightarrow>
                                  (let p = index_addr (internal_addr (mems info1 0)) (MEMCTRLSTATUS_MAGIC h);
                                       magic_number = uint (readb k p);
                                       t5 = t4 @ [Readb p]
                                   in if \<not> magic_scan (MAGIC_NUMBERS_PER_DEV h) magic_numbers magic_number 0
                                      then (Ret (- ENODEV, None), t5 @ [magic_invalid] @ out_release)
                                      else
                                        (let info2 = info1\<lparr>name := DRIVER_NAME h, version := ''0.0.1'',
                                                            irq := dev_irq k\<rparr>
                                         in if uio_register_device_rc k \<noteq> 0 then
                                              (Ret (- ENODEV, None),
                                               t5 @ [Uio_register_device] @ out_unmap info2)
                                            else
                                              (Ret (0, Some info2),
                                               t5 @ [Uio_register_device, Pci_set_drvdata]))))))))"

section \<open>The specification's wording of the device locator\<close>

text \<open>
  The spec's locator: among the directory-like entries, in enumeration order,
  the first whose identity attribute, trimmed of a trailing newline, equals
  the target identity string. These definitions follow the spec's words; they
  are compared with \<open>find_uio_device\<close> below.
\<close>

definition trim_newline :: "string \<Rightarrow> string" where
  "trim_newline s = (if s \<noteq> [] \<and> last s = NL then butlast s else s)"

definition directory_like :: "dirent \<Rightarrow> bool" where
  "directory_like d = (d_type d = DT_DIR \<or> d_type d = DT_LNK)"

definition identity_matches :: "umem_h \<Rightarrow> env \<Rightarrow> dirent \<Rightarrow> bool" where
  "identity_matches h e d =
     (directory_like d \<and>
      (case files e (name_pathname d) of
         None \<Rightarrow> False
       | Some content \<Rightarrow> trim_newline content = DRIVER_NAME h))"

text \<open>
  The identity attribute file is a single line of text (section 6 of the spec):
  no NUL character, and no newline except possibly as the last character.
\<close>

definition single_line :: "string \<Rightarrow> bool" where
  "single_line content = (NUL \<notin> set content \<and> NL \<notin> set (butlast content))"

definition registry_ok :: "env \<Rightarrow> dirent list \<Rightarrow> bool" where
  "registry_ok e ds =
     list_all (\<lambda>d. case files e (name_pathname d) of
                      None \<Rightarrow> True
                    | Some content \<Rightarrow> single_line content) ds"

text \<open>
  The driver name is a non-empty C string literal that fits the 80-character
  buffer \<^verbatim>\<open>uio_driver_name\<close> together with a newline and the terminating NUL.
\<close>

definition driver_name_ok :: "umem_h \<Rightarrow> bool" where
  "driver_name_ok h =
     (DRIVER_NAME h \<noteq> [] \<and> NUL \<notin> set (DRIVER_NAME h) \<and> length (DRIVER_NAME h) < 79)"

text \<open>An entry the scan cannot read a line from: it cannot be opened, or it is empty.\<close>

definition unreadable :: "env \<Rightarrow> dirent \<Rightarrow> bool" where
  "unreadable e d =
     (case files e (name_pathname d) of None \<Rightarrow> True | Some content \<Rightarrow> content = [])"

section \<open>Concrete inputs\<close>

text \<open>
  Modelled from the spec: the header \<^verbatim>\<open>umem.h\<close> is not among the sources. The
  spec gives the state codes OFF = 0, ON = 1, FLASH_SLOW = 2, FLASH_FAST = 3,
  the identity string \<^verbatim>\<open>nvram_uio\<close>, the window index 0 and tables of at most two
  magic candidates. The two flash macros are named after their rates, so the
  slow code belongs to \<^verbatim>\<open>LED_FLASH_3_5\<close> and the fast code to \<^verbatim>\<open>LED_FLASH_7_0\<close>. The
  spec leaves the register offsets, the shift of the fault indicator and the
  FLIP marker open; they are fixed here to have one concrete header, and no
  theorem about every header depends on them.
\<close>

definition umem_h_example :: umem_h where
  "umem_h_example =
     \<lparr>DRIVER_NAME = ''nvram_uio'', CSR_MAPPING_INDEX = 0, MAGIC_NUMBERS_PER_DEV = 2,
      MEMCTRLSTATUS_MAGIC = 0x00, MEMCTRLSTATUS_MEMORY = 0x07, MEMCTRLSTATUS_BATTERY = 0x04,
      MEMCTRLCMD_LEDCTRL = 0x08, MEMCTRLCMD_ERRCTRL = 0x0C,
      LED_FAULT = 4, LED_FLIP = 255, LED_OFF = 0, LED_ON = 1,
      LED_FLASH_3_5 = 2, LED_FLASH_7_0 = 3\<rparr>"

text \<open>
  \<^verbatim>\<open>munmap\<close> as Linux documents it: the call fails with \<^verbatim>\<open>EINVAL\<close> when the address
  is not a multiple of the page size or the length is zero, and succeeds
  otherwise.
\<close>

definition linux_munmap :: "int \<Rightarrow> 64 word \<Rightarrow> 64 word \<Rightarrow> int" where
  "linux_munmap pagesize a len = (if uint a mod pagesize \<noteq> 0 \<or> len = 0 then - 1 else 0)"

text \<open>
  A registry with three devices, the second and the third of this driver. The
  register window of the second is published with the given \<^verbatim>\<open>offset\<close>
  attribute and one page of size.
\<close>

definition env_example :: "string \<Rightarrow> env" where
  "env_example offset_text =
     \<lparr>uio_dir = Some [\<lparr>d_name = ''.'', d_type = DT_DIR\<rparr>,
                      \<lparr>d_name = ''uio0'', d_type = DT_LNK\<rparr>,
                      \<lparr>d_name = ''uio1'', d_type = DT_LNK\<rparr>,
                      \<lparr>d_name = ''uio2'', d_type = DT_LNK\<rparr>],
      files = map_of
        [(''/sys/class/uio/uio0/name'', ''other_driver\<newline>''),
         (''/sys/class/uio/uio1/name'', ''nvram_uio\<newline>''),
         (''/sys/class/uio/uio2/name'', ''nvram_uio\<newline>''),
         (''/sys/class/uio/uio1/maps/map0/offset'', offset_text),
         (''/sys/class/uio/uio1/maps/map0/size'', ''0x1000\<newline>'')],
      fscanf_0x_x = map_of
        [(''0x0\<newline>'', 0), (''0x10\<newline>'', 0x10), (''0x1000\<newline>'', 0x1000)],
      open_rc = (\<lambda>p. if p = ''/dev/uio1'' then 3 else - 1),
      mmap_rc = (\<lambda>len fd off. if fd = 3 \<and> off = 0 then 0x7F0000001000 else MAP_FAILED),
      munmap_rc = linux_munmap 4096,
      getpagesize = 4096\<rparr>"

definition world_example :: world where
  "world_example = \<lparr>mem = (\<lambda>a. 0), trace = []\<rparr>"

text \<open>A probe of a board with the given identifier, magic byte and length of BAR 0.\<close>

definition kenv_example :: "16 word \<Rightarrow> 8 word \<Rightarrow> 64 word \<Rightarrow> kenv" where
  "kenv_example device magic len =
     \<lparr>kzalloc_ok = True, pci_enable_device_rc = 0, pci_set_dma_mask_rc = 0,
      pci_request_regions_rc = 0, pci_resource_start = 0xFE000010, pci_resource_len = len,
      ioremap_nocache_rc = (\<lambda>base len. 0xFFFFC90000000010),
      readb = (\<lambda>a. if a = 0xFFFFC90000000010 then magic else 0),
      uio_register_device_rc = 0, dev_device = device, dev_irq = 11,
      PAGE_SIZE = 4096, stack = (\<lambda>i. 0x5D)\<rparr>"

text \<open>
  Reading a trace: the bytes stored to registers, in order, and the two-bit
  states they hold in the field of the LED register at a given shift.
\<close>

fun stored_bytes :: "event list \<Rightarrow> 8 word list" where
  "stored_bytes [] = []"
| "stored_bytes (Store a v # es) = v # stored_bytes es"
| "stored_bytes (ev # es) = stored_bytes es"

definition led_states_written :: "int \<Rightarrow> event list \<Rightarrow> 8 word list" where
  "led_states_written shift es = map (\<lambda>v. take_bit 2 (drop_bit (nat shift) v)) (stored_bytes es)"

section \<open>Properties\<close>

subsection \<open>The LED register\<close>

lemma bit_three_int: "bit (3::int) m = (m < 2)"
proof -
  have e: "(3::int) = mask 2" by (simp add: mask_eq_exp_minus_1)
  have "bit (mask 2 :: int) m = (m < 2)" by (auto simp add: bit_simps)
  then show ?thesis by (simp only: e)
qed

lemma field_bits:
  fixes led state :: "8 word"
  shows "bit (ucast ((ucast (ucast ((ucast led :: 32 word) AND NOT (push_bit k 3)) :: 8 word) :: 32 word) OR push_bit k (ucast state)) :: 8 word) n
     = (n < 8 \<and> ((bit led n \<and> \<not> (k \<le> n \<and> n < k + 2)) \<or> (k \<le> n \<and> bit state (n - k))))"
  by (auto simp add: bit_simps bit_three_int)

lemma flip_bits:
  fixes led :: "8 word"
  shows "bit (ucast ((ucast led :: 32 word) XOR push_bit k 1) :: 8 word) n = (n < 8 \<and> (bit led n \<noteq> (n = k)))"
  by (auto simp add: bit_simps)

lemma flip_bits_pow:
  fixes led :: "8 word"
  shows "bit (ucast ((ucast led :: 32 word) XOR 2 ^ k) :: 8 word) n = (n < 8 \<and> (bit led n \<noteq> (n = k)))"
  using flip_bits [of led k n] by simp

lemma set_led_value_field:
  assumes "0 \<le> shift" "shift < 32" "uint state \<noteq> LED_FLIP h"
  shows "\<exists>led'. set_led_value h shift state led = Some led' \<and>
     (\<forall>n. bit led' n = (n < 8 \<and> ((bit led n \<and> \<not> (nat shift \<le> n \<and> n < nat shift + 2)) \<or> (nat shift \<le> n \<and> bit state (n - nat shift)))))"
  using assms by (simp add: set_led_value_def Let_def field_bits)

lemma set_led_value_flip:
  assumes "0 \<le> shift" "shift < 32" "uint state = LED_FLIP h"
  shows "\<exists>led'. set_led_value h shift state led = Some led' \<and>
     (\<forall>n. bit led' n = (n < 8 \<and> (bit led n \<noteq> (n = nat shift))))"
  using assms by (simp add: set_led_value_def Let_def flip_bits_pow)

lemma small_state_bits:
  fixes state :: "8 word"
  assumes "state \<in> {0, 1, 2, 3}"
  shows "take_bit 2 state = state"
  using assms by auto

lemma small_state_bits2:
  fixes state :: "8 word"
  assumes "state \<in> {0, 1, 2, 3}"
  shows "bit state m \<Longrightarrow> m < 2"
proof -
  assume b: "bit state m"
  have "bit (take_bit 2 state) m" using b small_state_bits [OF assms] by simp
  then show "m < 2" by (simp add: bit_simps)
qed

lemma set_led_value_flip_twice:
  assumes "0 \<le> shift" "shift < 32" "uint state = LED_FLIP h"
  shows "\<exists>led'. set_led_value h shift state led = Some led' \<and> set_led_value h shift state led' = Some led"
proof -
  obtain led' where a: "set_led_value h shift state led = Some led'"
    and b: "\<And>n. bit led' n = (n < 8 \<and> (bit led n \<noteq> (n = nat shift)))"
    using set_led_value_flip [OF assms, of led] by blast
  obtain led'' where c: "set_led_value h shift state led' = Some led''"
    and d: "\<And>n. bit led'' n = (n < 8 \<and> (bit led' n \<noteq> (n = nat shift)))"
    using set_led_value_flip [OF assms, of led'] by blast
  have "led'' = led"
  proof (rule bit_eqI)
    fix n
    have "bit led n \<Longrightarrow> n < 8" using bit_imp_le_length [of led n] by simp
    then show "bit led'' n = bit led n" by (auto simp add: b d)
  qed
  then show ?thesis using a c by simp
qed

text \<open>
  Claim C1. For every value of the LED register, every even shift in
  \<open>{0, 2, 4, 6}\<close> and every requested state in \<open>{0, 1, 2, 3}\<close> other than the
  FLIP marker, \<open>set_led\<close> returns, the two bits of the register at positions
  \<open>shift\<close> and \<open>shift + 1\<close> then hold the state, and every other bit of the
  register is as it was before the call.
\<close>

theorem set_led_writes_state:
  assumes "shift \<in> {0, 2, 4, 6}" and "state \<in> {0, 1, 2, 3}" and "uint state \<noteq> LED_FLIP h"
  shows "\<exists>w'. set_led h context shift state w = (Ret (), w') \<and>
     take_bit 2 (drop_bit (nat shift) (mem w' (memctrlcmd_ledctrl context))) = state \<and>
     (\<forall>n. n \<noteq> nat shift \<and> n \<noteq> nat shift + 1 \<longrightarrow>
        bit (mem w' (memctrlcmd_ledctrl context)) n = bit (mem w (memctrlcmd_ledctrl context)) n)"
proof -
  let ?led = "mem w (memctrlcmd_ledctrl context)"
  have r: "0 \<le> shift" "shift < 32" "nat shift + 2 \<le> 8" using assms(1) by auto
  obtain led' where v: "set_led_value h shift state ?led = Some led'"
    and bits: "\<And>n. bit led' n = (n < 8 \<and> ((bit ?led n \<and> \<not> (nat shift \<le> n \<and> n < nat shift + 2)) \<or> (nat shift \<le> n \<and> bit state (n - nat shift))))"
    using set_led_value_field [OF r(1) r(2) assms(3), of ?led] by blast
  have field: "take_bit 2 (drop_bit (nat shift) led') = state"
  proof (rule bit_eqI)
    fix n
    have "n < 2 \<Longrightarrow> nat shift + n < 8" using r(3) by arith
    moreover have "bit state n \<Longrightarrow> n < 2" using small_state_bits2 [OF assms(2)] by blast
    ultimately show "bit (take_bit 2 (drop_bit (nat shift) led')) n = bit state n"
      by (auto simp add: bit_take_bit_iff bit_drop_bit_eq bits)
  qed
  have others: "\<forall>n. n \<noteq> nat shift \<and> n \<noteq> nat shift + 1 \<longrightarrow> bit led' n = bit ?led n"
  proof (intro allI impI)
    fix n
    assume ne: "n \<noteq> nat shift \<and> n \<noteq> nat shift + 1"
    have w: "bit ?led n \<Longrightarrow> n < 8" using bit_imp_le_length [of ?led n] by simp
    show "bit led' n = bit ?led n"
    proof (cases "n < nat shift")
      case True
      then show ?thesis using w by (auto simp add: bits)
    next
      case False
      then have "\<not> n - nat shift < 2" using ne by arith
      then have "\<not> bit state (n - nat shift)" using small_state_bits2 [OF assms(2)] by blast
      moreover have "\<not> n < nat shift + 2" using False ne by arith
      ultimately show ?thesis using w by (auto simp add: bits)
    qed
  qed
  show ?thesis
    using v field others by (simp add: set_led_def Let_def log_def)
qed

theorem set_led_writes_state_witness:
  "(4 :: int) \<in> {0, 2, 4, 6} \<and> (1 :: 8 word) \<in> {0, 1, 2, 3} \<and>
   uint (1 :: 8 word) \<noteq> LED_FLIP umem_h_example \<and>
   (\<exists>w'. set_led umem_h_example zero_context 4 1 world_example = (Ret (), w') \<and>
      take_bit 2 (drop_bit 4 (mem w' (memctrlcmd_ledctrl zero_context))) = (1 :: 8 word))"
proof -
  have a: "(4 :: int) \<in> {0, 2, 4, 6}" and b: "(1 :: 8 word) \<in> {0, 1, 2, 3}"
    by simp_all
  have c: "uint (1 :: 8 word) \<noteq> LED_FLIP umem_h_example"
    by (simp add: umem_h_example_def)
  show ?thesis
    using a b c set_led_writes_state [OF a b c, of zero_context world_example]
    by auto
qed

text \<open>
  Claim C2. For every value of the LED register and every shift that
  addresses one of its eight bits, \<open>set_led\<close> with the FLIP marker inverts
  the bit at position \<open>shift\<close> and leaves every other bit, the one at
  \<open>shift + 1\<close> included, and every other byte of memory as it was. A second
  FLIP at the same shift restores the register.
\<close>

theorem set_led_flip_toggles:
  assumes "0 \<le> shift" and "shift < 8" and "uint state = LED_FLIP h"
  shows "\<exists>w' w''. set_led h context shift state w = (Ret (), w') \<and>
     (\<forall>n. bit (mem w' (memctrlcmd_ledctrl context)) n =
        (if n = nat shift then \<not> bit (mem w (memctrlcmd_ledctrl context)) n
         else bit (mem w (memctrlcmd_ledctrl context)) n)) \<and>
     (\<forall>a. a \<noteq> memctrlcmd_ledctrl context \<longrightarrow> mem w' a = mem w a) \<and>
     set_led h context shift state w' = (Ret (), w'') \<and> mem w'' = mem w"
proof -
  let ?p = "memctrlcmd_ledctrl context"
  let ?led = "mem w ?p"
  have s32: "shift < 32" using assms(2) by simp
  obtain led' where a: "set_led_value h shift state ?led = Some led'"
    and a': "set_led_value h shift state led' = Some ?led"
    using set_led_value_flip_twice [OF assms(1) s32 assms(3), of ?led] by blast
  obtain led1 where b: "set_led_value h shift state ?led = Some led1"
    and bits: "\<And>n. bit led1 n = (n < 8 \<and> (bit ?led n \<noteq> (n = nat shift)))"
    using set_led_value_flip [OF assms(1) s32 assms(3), of ?led] by blast
  have e: "led1 = led'" using a b by simp
  have w8: "\<And>n. bit ?led n \<Longrightarrow> n < 8" using bit_imp_le_length [of ?led] by simp
  have t: "bit led' n = (if n = nat shift then \<not> bit ?led n else bit ?led n)" for n
    using w8 [of n] assms(1,2) by (auto simp add: bits e [symmetric])
  show ?thesis
    using a a' t by (simp add: set_led_def Let_def log_def)
qed

theorem set_led_flip_toggles_witness:
  "(0 :: int) \<le> 4 \<and> (4 :: int) < 8 \<and> uint (255 :: 8 word) = LED_FLIP umem_h_example \<and>
   (\<exists>w' w''. set_led umem_h_example zero_context 4 255 world_example = (Ret (), w') \<and>
      bit (mem w' (memctrlcmd_ledctrl zero_context)) 4 =
        (\<not> bit (mem world_example (memctrlcmd_ledctrl zero_context)) 4) \<and>
      bit (mem w' (memctrlcmd_ledctrl zero_context)) 5 =
        bit (mem world_example (memctrlcmd_ledctrl zero_context)) 5 \<and>
      set_led umem_h_example zero_context 4 255 w' = (Ret (), w'') \<and>
      mem w'' = mem world_example)"
proof -
  have f: "uint (255 :: 8 word) = LED_FLIP umem_h_example"
    by (simp add: umem_h_example_def)
  obtain w' w'' where
    a: "set_led umem_h_example zero_context 4 255 world_example = (Ret (), w')" and
    b: "\<forall>n. bit (mem w' (memctrlcmd_ledctrl zero_context)) n =
           (if n = nat 4 then \<not> bit (mem world_example (memctrlcmd_ledctrl zero_context)) n
            else bit (mem world_example (memctrlcmd_ledctrl zero_context)) n)" and
    c: "set_led umem_h_example zero_context 4 255 w' = (Ret (), w'')" and
    d: "mem w'' = mem world_example"
    using set_led_flip_toggles [of 4 255 umem_h_example zero_context world_example] f
    by auto
  have "bit (mem w' (memctrlcmd_ledctrl zero_context)) 4 =
        (\<not> bit (mem world_example (memctrlcmd_ledctrl zero_context)) 4)"
    using b by simp
  moreover have "bit (mem w' (memctrlcmd_ledctrl zero_context)) 5 =
        bit (mem world_example (memctrlcmd_ledctrl zero_context)) 5"
    using b by simp
  ultimately show ?thesis using a c d f by auto
qed

subsection \<open>The magic number of the board\<close>

lemma magic_scan_iff:
  "magic_number < 0x100 \<Longrightarrow>
   magic_scan n magic_numbers magic_number i =
     (magic_number \<in> set (takeWhile (\<lambda>c. c < 0x100) (map magic_numbers [i..<n])))"
proof (induction n magic_numbers magic_number i rule: magic_scan.induct)
  case (1 n magic_numbers magic_number i)
  show ?case
  proof (cases "i < n")
    case False
    then show ?thesis by (simp add: magic_scan.simps [of n magic_numbers magic_number i])
  next
    case True
    then have u: "[i..<n] = i # [Suc i..<n]" by (simp add: upt_conv_Cons)
    have ne: "256 \<le> magic_numbers i \<Longrightarrow> magic_numbers i \<noteq> magic_number"
      using "1.prems" by linarith
    show ?thesis
      using True "1.IH" "1.prems" ne
      by (simp add: magic_scan.simps [of n magic_numbers magic_number i] u)
  qed
qed

lemma takeWhile_stop: "\<not> P y \<Longrightarrow> takeWhile P (xs @ y # ys) = takeWhile P xs"
  by (induction xs) simp_all

lemma takeWhile_upt_stop:
  assumes "j \<le> n" and "\<not> P (f j)" 
  shows "takeWhile P (map f [0..<Suc n]) = takeWhile P (map f [0..<j])"
proof -
  have "[0..<Suc n] = [0..<j] @ [j..<Suc n]"
    using upt_add_eq_append [of 0 j "Suc n - j"] assms(1) by simp
  moreover have "[j..<Suc n] = j # [Suc j..<Suc n]"
    using assms(1) by (simp add: upt_conv_Cons)
  ultimately have "[0..<Suc n] = [0..<j] @ j # [Suc j..<Suc n]" by simp
  then have "map f [0..<Suc n] = map f [0..<j] @ f j # map f [Suc j..<Suc n]"
    by (simp only: map_append list.map)
  then show ?thesis using takeWhile_stop [where P = P and y = "f j", OF assms(2)] by (simp only:)
qed

lemma takeWhile_sentinel_within:
  assumes "j \<le> n" and "\<not> P (f j)"
  shows "takeWhile P (map f [0..<Suc n]) = takeWhile P (map f [0..<n])"
proof (cases "j = n")
  case True
  then show ?thesis using takeWhile_upt_stop [where P = P and f = f, OF assms] by simp
next
  case False
  then obtain m where m: "n = Suc m" and jm: "j \<le> m" using assms(1) by (cases n) auto
  show ?thesis
    using takeWhile_upt_stop [where P = P and f = f, OF assms] takeWhile_upt_stop [where P = P and f = f, OF jm assms(2)] m by simp
qed

lemma select_cases:
  assumes "select_magic_numbers n device arr = Some tbl"
  shows "(device = 0x5415 \<and> 1 \<le> n \<and> tbl = arr(0 := 0x59, 1 := 0x100)) \<or>
         (device = 0x5425 \<and> 2 \<le> n \<and> tbl = arr(0 := 0x5C, 1 := 0x5E, 2 := 0x100)) \<or>
         (device = 0x6155 \<and> 1 \<le> n \<and> tbl = arr(0 := 0x99, 1 := 0x100)) \<or>
         (device \<notin> {0x5415, 0x5425, 0x6155} \<and> tbl = arr(0 := 0x100))"
  using assms
  by (auto simp add: select_magic_numbers_def store_magic_def split: if_splits)

lemma select_has_sentinel:
  assumes "select_magic_numbers n device arr = Some tbl"
  shows "\<exists>j\<le>n. \<not> tbl j < 0x100"
proof -
  consider "1 \<le> n \<and> tbl 1 = 0x100" | "2 \<le> n \<and> tbl 2 = 0x100" | "tbl 0 = 0x100"
    using select_cases [OF assms] by auto
  then show ?thesis
  proof cases
    case 1
    then show ?thesis by (intro exI [of _ 1]) simp
  next
    case 2
    then show ?thesis by (intro exI [of _ 2]) simp
  next
    case 3
    then show ?thesis by (intro exI [of _ 0]) simp
  qed
qed

lemma magic_scan_selected:
  assumes s: "select_magic_numbers n device arr = Some tbl"
  shows "magic_scan n tbl (uint (magic :: 8 word)) 0 =
        (uint magic \<in> set (takeWhile (\<lambda>c. c < 0x100) (map tbl [0..<Suc n])))"
proof -
  have b: "uint magic < 0x100" using uint_bounded [of magic] by simp
  obtain j where "j \<le> n" "\<not> tbl j < 0x100" using select_has_sentinel [OF s] by blast
  then have "takeWhile (\<lambda>c. c < 0x100) (map tbl [0..<Suc n]) = takeWhile (\<lambda>c. c < 0x100) (map tbl [0..<n])"
    by (rule takeWhile_sentinel_within)
  then show ?thesis
    using magic_scan_iff [OF b, of n tbl 0] by simp
qed

lemma magic_table_5425:
  assumes n: "2 \<le> n"
  shows "\<exists>t. select_magic_numbers n 0x5425 arr = Some t \<and>
           map t [0..<3] = [0x5C, 0x5E, 0x100] \<and>
           magic_scan n t (uint (0x5E :: 8 word)) 0 \<and>
           \<not> magic_scan n t (uint (0x5D :: 8 word)) 0"
proof -
  let ?t = "arr(0 := 0x5C, 1 := 0x5E, 2 := 0x100)"
  have s: "select_magic_numbers n 0x5425 arr = Some ?t"
    using n by (simp add: select_magic_numbers_def store_magic_def)
  have u: "[0..<3] = [0, 1, 2]" by (simp add: numeral_3_eq_3)
  have m: "map ?t [0..<3] = [0x5C, 0x5E, 0x100]" by (simp add: u)
  have pre: "takeWhile (\<lambda>c. c < 0x100) (map ?t [0..<n]) = [0x5C, 0x5E]"
  proof -
    have "takeWhile (\<lambda>c. c < 0x100) (map ?t [0..<Suc n]) = takeWhile (\<lambda>c. c < 0x100) (map ?t [0..<2])"
      using n by (intro takeWhile_upt_stop) simp_all
    moreover have "takeWhile (\<lambda>c. c < 0x100) (map ?t [0..<Suc n]) = takeWhile (\<lambda>c. c < 0x100) (map ?t [0..<n])"
      using n by (intro takeWhile_sentinel_within [where j = 2]) simp_all
    ultimately have "takeWhile (\<lambda>c. c < 0x100) (map ?t [0..<n]) = takeWhile (\<lambda>c. c < 0x100) (map ?t [0..<2])"
      by (simp only:)
    moreover have "[0..<2] = [0, 1]" by (simp add: numeral_2_eq_2)
    ultimately show ?thesis by simp
  qed
  have a: "magic_scan n ?t (uint (0x5E :: 8 word)) 0"
    using magic_scan_iff [of "uint (0x5E :: 8 word)" n ?t 0] pre by simp
  have r: "\<not> magic_scan n ?t (uint (0x5D :: 8 word)) 0"
    using magic_scan_iff [of "uint (0x5D :: 8 word)" n ?t 0] pre by simp
  show "\<exists>t. select_magic_numbers n 0x5425 arr = Some t \<and>
           map t [0..<3] = [0x5C, 0x5E, 0x100] \<and>
           magic_scan n t (uint (0x5E :: 8 word)) 0 \<and>
           \<not> magic_scan n t (uint (0x5D :: 8 word)) 0"
    by (rule exI [of _ ?t]) (intro conjI s m a r)
qed

lemma probe_at_validation:
  assumes "kzalloc_ok k" and "pci_enable_device_rc k = 0" and "pci_set_dma_mask_rc k = 0"
    and "pci_request_regions_rc k = 0" and "pci_resource_start k \<noteq> 0"
    and "pci_resource_len k \<noteq> 0" and "CSR_MAPPING_INDEX h < MAX_UIO_MAPS"
    and "ioremap_nocache_rc k (pci_resource_start k)
           (page_align (PAGE_SIZE k) (pci_resource_len k)) = mapped"
    and "mapped \<noteq> 0"
    and "select_magic_numbers (MAGIC_NUMBERS_PER_DEV h) (dev_device k) (stack k) = Some tbl"
    and "p = index_addr (if CSR_MAPPING_INDEX h = 0 then mapped else 0) (MEMCTRLSTATUS_MAGIC h)"
  shows "Readb p \<in> set (snd (nvram_uio_pci_probe h k)) \<and>
     (if magic_scan (MAGIC_NUMBERS_PER_DEV h) tbl (uint (readb k p)) 0
      then magic_invalid \<notin> set (snd (nvram_uio_pci_probe h k)) \<and>
           Uio_register_device \<in> set (snd (nvram_uio_pci_probe h k)) \<and>
           ((\<exists>info. fst (nvram_uio_pci_probe h k) = Ret (0, Some info)) =
              (uio_register_device_rc k = 0))
      else fst (nvram_uio_pci_probe h k) = Ret (- ENODEV, None) \<and>
           Uio_register_device \<notin> set (snd (nvram_uio_pci_probe h k)) \<and>
           (\<exists>t. snd (nvram_uio_pci_probe h k) = t @ [Readb p, magic_invalid] @ out_release))"
  using assms
  by (simp add: nvram_uio_pci_probe_def Let_def zero_info_def zero_mem_def out_free_def out_disable_def
        out_release_def out_unmap_def magic_invalid_def ENODEV_def)

text \<open>
  Claim C3. The validator accepts the byte read from the magic register
  exactly when it equals one of the candidates that precede the first sentinel
  (a value of \<open>0x100\<close> or more) in the table the \<^verbatim>\<open>switch\<close> selected; what
  follows the sentinel is not consulted, no byte equals the sentinel, and a byte
  that equals no candidate is rejected. For the device \<open>0x5425\<close> the table is
  \<open>0x5C, 0x5E, 0x100\<close>: the byte \<open>0x5E\<close> is accepted and \<open>0x5D\<close> is rejected.
  In the probe routine, once the region is mapped, the byte is read at
  \<^verbatim>\<open>mem[0].internal_addr + MEMCTRLSTATUS_MAGIC\<close>; when it is among the
  candidates of the table for \<^verbatim>\<open>dev->device\<close> the routine goes on to register
  the device and returns 0 exactly when the registration succeeds; otherwise
  it reports the invalid magic number, releases what it had acquired and
  returns \<open>- ENODEV\<close> without registering. The array of
  \<^verbatim>\<open>MAGIC_NUMBERS_PER_DEV + 1\<close> elements has to hold the values stored into it,
  which for \<open>0x5425\<close> means \<open>2 \<le> MAGIC_NUMBERS_PER_DEV\<close>.
\<close>

theorem magic_validation:
  "(select_magic_numbers n device arr = Some tbl \<longrightarrow>
      magic_scan n tbl (uint (magic :: 8 word)) 0 =
        (uint magic \<in> set (takeWhile (\<lambda>c. c < 0x100) (map tbl [0..<Suc n])))) \<and>
   (2 \<le> n \<longrightarrow>
      (\<exists>t. select_magic_numbers n 0x5425 arr = Some t \<and>
           map t [0..<3] = [0x5C, 0x5E, 0x100] \<and>
           magic_scan n t (uint (0x5E :: 8 word)) 0 \<and>
           \<not> magic_scan n t (uint (0x5D :: 8 word)) 0)) \<and>
   (kzalloc_ok k \<and> pci_enable_device_rc k = 0 \<and> pci_set_dma_mask_rc k = 0 \<and>
    pci_request_regions_rc k = 0 \<and> pci_resource_start k \<noteq> 0 \<and> pci_resource_len k \<noteq> 0 \<and>
    CSR_MAPPING_INDEX h < MAX_UIO_MAPS \<and>
    ioremap_nocache_rc k (pci_resource_start k)
      (page_align (PAGE_SIZE k) (pci_resource_len k)) = mapped \<and> mapped \<noteq> 0 \<and>
    select_magic_numbers (MAGIC_NUMBERS_PER_DEV h) (dev_device k) (stack k) = Some tb \<and>
    p = index_addr (if CSR_MAPPING_INDEX h = 0 then mapped else 0) (MEMCTRLSTATUS_MAGIC h) \<longrightarrow>
      Readb p \<in> set (snd (nvram_uio_pci_probe h k)) \<and>
      (if uint (readb k p)
            \<in> set (takeWhile (\<lambda>c. c < 0x100) (map tb [0..<Suc (MAGIC_NUMBERS_PER_DEV h)]))
       then magic_invalid \<notin> set (snd (nvram_uio_pci_probe h k)) \<and>
            Uio_register_device \<in> set (snd (nvram_uio_pci_probe h k)) \<and>
            ((\<exists>info. fst (nvram_uio_pci_probe h k) = Ret (0, Some info)) =
               (uio_register_device_rc k = 0))
       else fst (nvram_uio_pci_probe h k) = Ret (- ENODEV, None) \<and>
            Uio_register_device \<notin> set (snd (nvram_uio_pci_probe h k)) \<and>
            (\<exists>t. snd (nvram_uio_pci_probe h k) = t @ [Readb p, magic_invalid] @ out_release)))"
proof (intro conjI; rule impI)
  assume "select_magic_numbers n device arr = Some tbl"
  then show "magic_scan n tbl (uint magic) 0 =
        (uint magic \<in> set (takeWhile (\<lambda>c. c < 0x100) (map tbl [0..<Suc n])))"
    by (rule magic_scan_selected)
next
  assume "2 \<le> n"
  then show "\<exists>t. select_magic_numbers n 0x5425 arr = Some t \<and>
           map t [0..<3] = [0x5C, 0x5E, 0x100] \<and>
           magic_scan n t (uint (0x5E :: 8 word)) 0 \<and>
           \<not> magic_scan n t (uint (0x5D :: 8 word)) 0"
    by (rule magic_table_5425)
next
  assume a: "kzalloc_ok k \<and> pci_enable_device_rc k = 0 \<and> pci_set_dma_mask_rc k = 0 \<and>
    pci_request_regions_rc k = 0 \<and> pci_resource_start k \<noteq> 0 \<and> pci_resource_len k \<noteq> 0 \<and>
    CSR_MAPPING_INDEX h < MAX_UIO_MAPS \<and>
    ioremap_nocache_rc k (pci_resource_start k)
      (page_align (PAGE_SIZE k) (pci_resource_len k)) = mapped \<and> mapped \<noteq> 0 \<and>
    select_magic_numbers (MAGIC_NUMBERS_PER_DEV h) (dev_device k) (stack k) = Some tb \<and>
    p = index_addr (if CSR_MAPPING_INDEX h = 0 then mapped else 0) (MEMCTRLSTATUS_MAGIC h)"
  then have s: "select_magic_numbers (MAGIC_NUMBERS_PER_DEV h) (dev_device k) (stack k) = Some tb"
    by simp
  have e: "magic_scan (MAGIC_NUMBERS_PER_DEV h) tb (uint (readb k p)) 0 =
        (uint (readb k p)
           \<in> set (takeWhile (\<lambda>c. c < 0x100) (map tb [0..<Suc (MAGIC_NUMBERS_PER_DEV h)])))"
    using s by (rule magic_scan_selected)
  have "Readb p \<in> set (snd (nvram_uio_pci_probe h k)) \<and>
     (if magic_scan (MAGIC_NUMBERS_PER_DEV h) tb (uint (readb k p)) 0
      then magic_invalid \<notin> set (snd (nvram_uio_pci_probe h k)) \<and>
           Uio_register_device \<in> set (snd (nvram_uio_pci_probe h k)) \<and>
           ((\<exists>info. fst (nvram_uio_pci_probe h k) = Ret (0, Some info)) =
              (uio_register_device_rc k = 0))
      else fst (nvram_uio_pci_probe h k) = Ret (- ENODEV, None) \<and>
           Uio_register_device \<notin> set (snd (nvram_uio_pci_probe h k)) \<and>
           (\<exists>t. snd (nvram_uio_pci_probe h k) = t @ [Readb p, magic_invalid] @ out_release))"
    using a by (intro probe_at_validation) simp_all
  then show "Readb p \<in> set (snd (nvram_uio_pci_probe h k)) \<and>
      (if uint (readb k p)
            \<in> set (takeWhile (\<lambda>c. c < 0x100) (map tb [0..<Suc (MAGIC_NUMBERS_PER_DEV h)]))
       then magic_invalid \<notin> set (snd (nvram_uio_pci_probe h k)) \<and>
            Uio_register_device \<in> set (snd (nvram_uio_pci_probe h k)) \<and>
            ((\<exists>info. fst (nvram_uio_pci_probe h k) = Ret (0, Some info)) =
               (uio_register_device_rc k = 0))
       else fst (nvram_uio_pci_probe h k) = Ret (- ENODEV, None) \<and>
            Uio_register_device \<notin> set (snd (nvram_uio_pci_probe h k)) \<and>
            (\<exists>t. snd (nvram_uio_pci_probe h k) = t @ [Readb p, magic_invalid] @ out_release))"
    unfolding e [symmetric] .
qed

theorem magic_validation_witness:
  "select_magic_numbers 2 0x5425 (\<lambda>i. 0x5D) = Some ((\<lambda>i. 0x5D)(0 := 0x5C, 1 := 0x5E, 2 := 0x100)) \<and>
   magic_scan 2 ((\<lambda>i. 0x5D)(0 := 0x5C, 1 := 0x5E, 2 := 0x100)) (uint (0x5E :: 8 word)) 0 \<and>
   (2::nat) \<le> 2 \<and>
   (\<exists>t. select_magic_numbers 2 0x5425 (\<lambda>i. 0x5D) = Some t \<and> \<not> magic_scan 2 t (uint (0x5D :: 8 word)) 0) \<and>
   Readb 0xFFFFC90000000010
     \<in> set (snd (nvram_uio_pci_probe umem_h_example (kenv_example 0x5425 0x5E 0x10))) \<and>
   (\<exists>info. fst (nvram_uio_pci_probe umem_h_example (kenv_example 0x5425 0x5E 0x10)) = Ret (0, Some info)) \<and>
   magic_invalid \<notin> set (snd (nvram_uio_pci_probe umem_h_example (kenv_example 0x5425 0x5E 0x10))) \<and>
   fst (nvram_uio_pci_probe umem_h_example (kenv_example 0x5425 0x5D 0x10)) = Ret (- ENODEV, None) \<and>
   Uio_register_device \<notin> set (snd (nvram_uio_pci_probe umem_h_example (kenv_example 0x5425 0x5D 0x10)))"
proof -
  let ?T = "(\<lambda>i. 0x5D)(0 := 0x5C, 1 := 0x5E, 2 := (0x100 :: int))"
  have s: "select_magic_numbers 2 0x5425 (\<lambda>i. 0x5D) = Some ?T"
    by (simp add: select_magic_numbers_def store_magic_def)
  have u: "[0..<2] = [0, 1]" by (simp add: numeral_2_eq_2)
  have u3: "[0..<3] = [0, 1, 2]" by (simp add: numeral_3_eq_3)
  have c: "takeWhile (\<lambda>c. c < 0x100) (map ?T [0..<Suc 2]) = [0x5C, 0x5E]"
    by (simp add: u3)
  have first: "magic_scan 2 ?T (uint (0x5E :: 8 word)) 0 \<and>
     (\<exists>t. select_magic_numbers 2 0x5425 (\<lambda>i. 0x5D) = Some t \<and> \<not> magic_scan 2 t (uint (0x5D :: 8 word)) 0)"
    using s magic_validation [of 2 "0x5425" "\<lambda>i. 0x5D" ?T "0x5E"]
    by (auto simp add: u)
  let ?h = umem_h_example
  let ?ka = "kenv_example 0x5425 0x5E 0x10" and ?kr = "kenv_example 0x5425 0x5D 0x10"
  let ?p = "0xFFFFC90000000010 :: 64 word"
  have ha: "kzalloc_ok ?ka \<and> pci_enable_device_rc ?ka = 0 \<and> pci_set_dma_mask_rc ?ka = 0 \<and>
    pci_request_regions_rc ?ka = 0 \<and> pci_resource_start ?ka \<noteq> 0 \<and> pci_resource_len ?ka \<noteq> 0 \<and>
    CSR_MAPPING_INDEX ?h < MAX_UIO_MAPS \<and>
    ioremap_nocache_rc ?ka (pci_resource_start ?ka)
      (page_align (PAGE_SIZE ?ka) (pci_resource_len ?ka)) = ?p \<and> ?p \<noteq> 0 \<and>
    select_magic_numbers (MAGIC_NUMBERS_PER_DEV ?h) (dev_device ?ka) (stack ?ka) = Some ?T \<and>
    ?p = index_addr (if CSR_MAPPING_INDEX ?h = 0 then ?p else 0) (MEMCTRLSTATUS_MAGIC ?h)"
    by (simp add: kenv_example_def umem_h_example_def MAX_UIO_MAPS_def index_addr_def
          select_magic_numbers_def store_magic_def)
  have hr: "kzalloc_ok ?kr \<and> pci_enable_device_rc ?kr = 0 \<and> pci_set_dma_mask_rc ?kr = 0 \<and>
    pci_request_regions_rc ?kr = 0 \<and> pci_resource_start ?kr \<noteq> 0 \<and> pci_resource_len ?kr \<noteq> 0 \<and>
    CSR_MAPPING_INDEX ?h < MAX_UIO_MAPS \<and>
    ioremap_nocache_rc ?kr (pci_resource_start ?kr)
      (page_align (PAGE_SIZE ?kr) (pci_resource_len ?kr)) = ?p \<and> ?p \<noteq> 0 \<and>
    select_magic_numbers (MAGIC_NUMBERS_PER_DEV ?h) (dev_device ?kr) (stack ?kr) = Some ?T \<and>
    ?p = index_addr (if CSR_MAPPING_INDEX ?h = 0 then ?p else 0) (MEMCTRLSTATUS_MAGIC ?h)"
    by (simp add: kenv_example_def umem_h_example_def MAX_UIO_MAPS_def index_addr_def
          select_magic_numbers_def store_magic_def)
  have ma: "uint (readb ?ka ?p)
      \<in> set (takeWhile (\<lambda>c. c < 0x100) (map ?T [0..<Suc (MAGIC_NUMBERS_PER_DEV ?h)]))"
    by (simp add: kenv_example_def umem_h_example_def u3)
  have mr: "uint (readb ?kr ?p)
      \<notin> set (takeWhile (\<lambda>c. c < 0x100) (map ?T [0..<Suc (MAGIC_NUMBERS_PER_DEV ?h)]))"
    by (simp add: kenv_example_def umem_h_example_def u3)
  have ra: "uio_register_device_rc ?ka = 0" by (simp add: kenv_example_def)
  note ta = magic_validation [where h = ?h and k = ?ka and mapped = ?p and tb = ?T and p = ?p,
      THEN conjunct2, THEN conjunct2, THEN mp, OF ha]
  note tr = magic_validation [where h = ?h and k = ?kr and mapped = ?p and tb = ?T and p = ?p,
      THEN conjunct2, THEN conjunct2, THEN mp, OF hr]
  have acc: "Readb ?p \<in> set (snd (nvram_uio_pci_probe ?h ?ka)) \<and>
     (\<exists>info. fst (nvram_uio_pci_probe ?h ?ka) = Ret (0, Some info)) \<and>
     magic_invalid \<notin> set (snd (nvram_uio_pci_probe ?h ?ka))"
    using ta ma ra by (simp only: if_True simp_thms)
  have rej: "fst (nvram_uio_pci_probe ?h ?kr) = Ret (- ENODEV, None) \<and>
     Uio_register_device \<notin> set (snd (nvram_uio_pci_probe ?h ?kr))"
    using tr mr by (simp only: if_False simp_thms)
  show ?thesis using s first acc rej by (simp only: simp_thms)
qed

subsection \<open>Unrecognised boards\<close>

lemma select_unrecognised:
  assumes "device \<notin> {0x5415, 0x5425, 0x6155}"
  shows "select_magic_numbers n device arr = Some (arr(0 := 0x100))"
  using assms by (simp add: select_magic_numbers_def store_magic_def)

lemma sentinel_first_rejects:
  assumes "0x100 \<le> tbl 0" and "m < 0x100"
  shows "\<not> magic_scan n tbl m 0"
  using assms by (simp add: magic_scan.simps [of n tbl m 0])

lemma probe_never_attaches_unvalidated:
  assumes "select_magic_numbers (MAGIC_NUMBERS_PER_DEV h) (dev_device k) (stack k) = Some tbl"
    and "\<And>m :: 8 word. \<not> magic_scan (MAGIC_NUMBERS_PER_DEV h) tbl (uint m) 0"
  shows "fst (nvram_uio_pci_probe h k) \<noteq> Ret (0, info)"
  using assms
  by (simp add: nvram_uio_pci_probe_def Let_def ENOMEM_def ENODEV_def)

lemma probe_rejects_at_validation:
  assumes "select_magic_numbers (MAGIC_NUMBERS_PER_DEV h) (dev_device k) (stack k) = Some tbl"
    and "\<And>m :: 8 word. \<not> magic_scan (MAGIC_NUMBERS_PER_DEV h) tbl (uint m) 0"
    and "Readb p \<in> set (snd (nvram_uio_pci_probe h k))"
  shows "fst (nvram_uio_pci_probe h k) = Ret (- ENODEV, None) \<and>
         count_list (snd (nvram_uio_pci_probe h k)) magic_invalid = 1 \<and>
         (\<exists>t. snd (nvram_uio_pci_probe h k) = t @ [Readb p, magic_invalid] @ out_release)"
  using assms
  by (auto simp add: nvram_uio_pci_probe_def Let_def out_free_def out_disable_def out_release_def
        out_unmap_def magic_invalid_def split: if_splits)

text \<open>
  Claim C8. For every device identifier other than \<open>0x5415\<close>, \<open>0x5425\<close> and
  \<open>0x6155\<close> the \<^verbatim>\<open>switch\<close> stores the sentinel alone, at index 0, so the list
  of candidates before the sentinel is empty and no byte read from the magic
  register is accepted. The probe then never returns 0; once it has read the
  magic register it reports the invalid magic number exactly once, releases
  what it had acquired and returns \<open>- ENODEV\<close>.
\<close>

theorem unrecognised_variant_rejected:
  assumes "dev_device k \<notin> {0x5415, 0x5425, 0x6155}"
  shows "select_magic_numbers (MAGIC_NUMBERS_PER_DEV h) (dev_device k) (stack k) =
           Some ((stack k)(0 := 0x100)) \<and>
         takeWhile (\<lambda>c. c < 0x100)
           (map ((stack k)(0 := 0x100)) [0..<Suc (MAGIC_NUMBERS_PER_DEV h)]) = [] \<and>
         (\<forall>magic :: 8 word.
            \<not> magic_scan (MAGIC_NUMBERS_PER_DEV h) ((stack k)(0 := 0x100)) (uint magic) 0) \<and>
         (\<forall>info. fst (nvram_uio_pci_probe h k) \<noteq> Ret (0, info)) \<and>
         (\<forall>p. Readb p \<in> set (snd (nvram_uio_pci_probe h k)) \<longrightarrow>
            fst (nvram_uio_pci_probe h k) = Ret (- ENODEV, None) \<and>
            count_list (snd (nvram_uio_pci_probe h k)) magic_invalid = 1 \<and>
            (\<exists>t. snd (nvram_uio_pci_probe h k) = t @ [Readb p, magic_invalid] @ out_release))"
proof -
  let ?tbl = "(stack k)(0 := 0x100)"
  have s: "select_magic_numbers (MAGIC_NUMBERS_PER_DEV h) (dev_device k) (stack k) = Some ?tbl"
    using assms by (rule select_unrecognised)
  have r: "\<not> magic_scan (MAGIC_NUMBERS_PER_DEV h) ?tbl (uint m) 0" for m :: "8 word"
    using uint_bounded [of m] by (intro sentinel_first_rejects) simp_all
  have e: "takeWhile (\<lambda>c. c < 0x100) (map ?tbl [0..<Suc (MAGIC_NUMBERS_PER_DEV h)]) = []"
    by (simp add: upt_conv_Cons del: upt_Suc)
  show ?thesis
    using s r e probe_never_attaches_unvalidated [OF s r] probe_rejects_at_validation [OF s r]
    by blast
qed

theorem unrecognised_variant_rejected_witness:
  "dev_device (kenv_example 0x1234 0x59 0x10) \<notin> {0x5415, 0x5425, 0x6155} \<and>
   Readb 0xFFFFC90000000010
     \<in> set (snd (nvram_uio_pci_probe umem_h_example (kenv_example 0x1234 0x59 0x10))) \<and>
   fst (nvram_uio_pci_probe umem_h_example (kenv_example 0x1234 0x59 0x10)) = Ret (- ENODEV, None) \<and>
   count_list (snd (nvram_uio_pci_probe umem_h_example (kenv_example 0x1234 0x59 0x10)))
     magic_invalid = 1"
proof -
  let ?k = "kenv_example 0x1234 0x59 0x10"
  have a: "dev_device ?k \<notin> {0x5415, 0x5425, 0x6155}"
    by (simp add: kenv_example_def)
  note t = unrecognised_variant_rejected [OF a, of umem_h_example]
  have s: "select_magic_numbers 2 0x1234 (\<lambda>i. 0x5D) = Some ((\<lambda>i. 0x5D)(0 := 0x100))"
    using t by (simp add: kenv_example_def umem_h_example_def)
  have "\<forall>magic :: 8 word.
          \<not> magic_scan (MAGIC_NUMBERS_PER_DEV umem_h_example) ((stack ?k)(0 := 0x100)) (uint magic) 0"
    using t by blast
  then have "\<not> magic_scan (MAGIC_NUMBERS_PER_DEV umem_h_example) ((stack ?k)(0 := 0x100))
               (uint (0x59 :: 8 word)) 0"
    by (rule spec)
  then have r: "\<not> magic_scan 2 ((\<lambda>i. 0x5D)(0 := 0x100)) 0x59 0"
    by (simp add: kenv_example_def umem_h_example_def)
  have b: "Readb 0xFFFFC90000000010 \<in> set (snd (nvram_uio_pci_probe umem_h_example ?k))"
    using r by (simp add: s nvram_uio_pci_probe_def Let_def umem_h_example_def kenv_example_def
          MAX_UIO_MAPS_def zero_info_def index_addr_def page_align_def)
  show ?thesis using a b t by blast
qed

subsection \<open>The page-aligned length of the register window\<close>

lemma unat_page_align:
  assumes "page_size \<noteq> 0" and "unat csr_len + unat page_size - 1 < 2 ^ 64"
  shows "unat (page_align page_size csr_len) =
           ((unat csr_len + unat page_size - 1) div unat page_size) * unat page_size"
proof -
  have p: "0 < unat page_size" using assms(1) by (simp add: unat_gt_0)
  have m: "unat (page_size - 1) = unat page_size - 1"
    using assms(1) by (simp add: unat_minus_one)
  have s: "unat (csr_len + (page_size - 1)) = unat csr_len + unat (page_size - 1)"
    using assms(2) m p by (subst unat_add_lem [THEN iffD1]) simp_all
  have a: "unat (csr_len + page_size - 1) = unat csr_len + unat page_size - 1"
    using s m p by (simp add: add_diff_eq [symmetric])
  have d: "unat ((csr_len + page_size - 1) div page_size) = (unat csr_len + unat page_size - 1) div unat page_size"
    by (simp add: unat_div a)
  have le: "((unat csr_len + unat page_size - 1) div unat page_size) * unat page_size \<le> unat csr_len + unat page_size - 1"
    by simp
  have "unat (((csr_len + page_size - 1) div page_size) * page_size) =
        unat ((csr_len + page_size - 1) div page_size) * unat page_size"
  proof -
    have "((unat csr_len + unat page_size - 1) div unat page_size) * unat page_size < 2 ^ 64"
      using le assms(2) by (rule le_less_trans)
    then have "unat ((csr_len + page_size - 1) div page_size) * unat page_size < 2 ^ LENGTH(64)"
      by (simp add: d)
    then show ?thesis by (rule unat_mult_lem [THEN iffD1])
  qed
  then show ?thesis by (simp add: page_align_def d)
qed

lemma round_up_nat:
  fixes p l :: nat
  assumes "0 < p"
  shows "p dvd ((l + p - 1) div p) * p" and "l \<le> ((l + p - 1) div p) * p"
    and "((l + p - 1) div p) * p < l + p"
    and "p dvd l \<Longrightarrow> ((l + p - 1) div p) * p = l"
    and "p dvd m \<Longrightarrow> l \<le> m \<Longrightarrow> ((l + p - 1) div p) * p \<le> m"
proof -
  let ?q = "(l + p - 1) div p"
  show "p dvd ?q * p" by simp
  have e: "l + p - 1 = ?q * p + (l + p - 1) mod p" by simp
  have r: "(l + p - 1) mod p < p" using assms by simp
  show 2: "l \<le> ?q * p" using e r assms by linarith
  show 3: "?q * p < l + p" using e assms by linarith
  show "p dvd l \<Longrightarrow> ?q * p = l"
  proof -
    assume "p dvd l"
    then obtain k where "l = p * k" by (rule dvdE)
    then have k: "l = k * p" by (simp only: mult.commute)
    have "k * p \<le> ?q * p" using 2 k by simp
    moreover have "?q * p < (k + 1) * p" using 3 k by simp
    ultimately have "k \<le> ?q \<and> ?q < k + 1" using assms by (metis mult_le_cancel2 mult_less_cancel2)
    then show "?q * p = l" using k by simp
  qed
  show "p dvd m \<Longrightarrow> l \<le> m \<Longrightarrow> ?q * p \<le> m"
  proof -
    assume "p dvd m" "l \<le> m"
    then obtain k where "m = p * k" by (auto elim: dvdE)
    then have k: "m = k * p" by (simp only: mult.commute)
    have "?q * p < (k + 1) * p" using 3 k \<open>l \<le> m\<close> by simp
    then have "?q < k + 1" using assms by (metis mult_less_cancel2)
    then have "?q \<le> k" by simp
    then show "?q * p \<le> m" using k by simp
  qed
qed

lemma probe_records_size:
  assumes "fst (nvram_uio_pci_probe h k) = Ret (0, Some info)"
  shows "size (mems info (CSR_MAPPING_INDEX h)) = page_align (PAGE_SIZE k) (pci_resource_len k) \<and>
         Ioremap_nocache (pci_resource_start k) (page_align (PAGE_SIZE k) (pci_resource_len k))
           \<in> set (snd (nvram_uio_pci_probe h k))"
  using assms
  by (auto simp add: nvram_uio_pci_probe_def Let_def ENOMEM_def ENODEV_def
        split: if_splits option.splits)

text \<open>
  Claim C9. For every region of BAR 0 that lies in the 64-bit address space at
  or above the first page boundary, and more generally for every raw length
  that \<^verbatim>\<open>PAGE_SIZE - 1\<close> can be added to within \<^verbatim>\<open>unsigned long\<close>, the length
  used for the window is the smallest multiple of the page size that is at
  least the raw length, and is the raw length itself when that is a whole
  number of pages. A probe that succeeds has mapped this length and has
  recorded it as the size of the window.
\<close>

theorem published_size_page_aligned:
  assumes "PAGE_SIZE k \<noteq> 0"
    and "unat (pci_resource_len k) + unat (PAGE_SIZE k) - 1 < 2 ^ 64 \<or>
         (unat (PAGE_SIZE k) \<le> unat (pci_resource_start k) \<and>
          unat (pci_resource_start k) + unat (pci_resource_len k) \<le> 2 ^ 64)"
  shows "unat (PAGE_SIZE k) dvd unat (page_align (PAGE_SIZE k) (pci_resource_len k)) \<and>
         unat (pci_resource_len k) \<le> unat (page_align (PAGE_SIZE k) (pci_resource_len k)) \<and>
         (\<forall>m. unat (PAGE_SIZE k) dvd m \<and> unat (pci_resource_len k) \<le> m \<longrightarrow>
              unat (page_align (PAGE_SIZE k) (pci_resource_len k)) \<le> m) \<and>
         (unat (PAGE_SIZE k) dvd unat (pci_resource_len k) \<longrightarrow>
              page_align (PAGE_SIZE k) (pci_resource_len k) = pci_resource_len k) \<and>
         (\<forall>info. fst (nvram_uio_pci_probe h k) = Ret (0, Some info) \<longrightarrow>
              size (mems info (CSR_MAPPING_INDEX h)) = page_align (PAGE_SIZE k) (pci_resource_len k) \<and>
              Ioremap_nocache (pci_resource_start k) (page_align (PAGE_SIZE k) (pci_resource_len k))
                \<in> set (snd (nvram_uio_pci_probe h k)))"
proof -
  let ?p = "unat (PAGE_SIZE k)" and ?l = "unat (pci_resource_len k)"
  have p: "0 < ?p" using assms(1) by (simp add: unat_gt_0)
  have nw: "?l + ?p - 1 < 2 ^ 64" using assms(2) p by linarith
  have u: "unat (page_align (PAGE_SIZE k) (pci_resource_len k)) = ((?l + ?p - 1) div ?p) * ?p"
    using assms(1) nw by (rule unat_page_align)
  have e: "?p dvd ?l \<Longrightarrow> page_align (PAGE_SIZE k) (pci_resource_len k) = pci_resource_len k"
  proof -
    assume "?p dvd ?l"
    then have "unat (page_align (PAGE_SIZE k) (pci_resource_len k)) = ?l"
      using round_up_nat(4) [OF p] u by simp
    then show ?thesis by (rule word_unat_eq_iff [THEN iffD2])
  qed
  show ?thesis
    using round_up_nat(1,2) [OF p, of ?l] round_up_nat(5) [OF p, of _ ?l] e probe_records_size [of h k]
    by (simp add: u)
qed

theorem published_size_page_aligned_witness:
  "PAGE_SIZE (kenv_example 0x5425 0x5E 0x10) \<noteq> 0 \<and>
   unat (PAGE_SIZE (kenv_example 0x5425 0x5E 0x10))
     \<le> unat (pci_resource_start (kenv_example 0x5425 0x5E 0x10)) \<and>
   unat (pci_resource_start (kenv_example 0x5425 0x5E 0x10)) +
     unat (pci_resource_len (kenv_example 0x5425 0x5E 0x10)) \<le> 2 ^ 64 \<and>
   page_align (PAGE_SIZE (kenv_example 0x5425 0x5E 0x10)) (pci_resource_len (kenv_example 0x5425 0x5E 0x10)) = 4096 \<and>
   (\<exists>info. fst (nvram_uio_pci_probe umem_h_example (kenv_example 0x5425 0x5E 0x10)) = Ret (0, Some info) \<and>
      size (mems info (CSR_MAPPING_INDEX umem_h_example)) = 4096)"
proof -
  let ?k = "kenv_example 0x5425 0x5E 0x10"
  have a: "PAGE_SIZE ?k \<noteq> 0" by (simp add: kenv_example_def)
  have b0: "unat (PAGE_SIZE ?k) \<le> unat (pci_resource_start ?k) \<and>
      unat (pci_resource_start ?k) + unat (pci_resource_len ?k) \<le> 2 ^ 64"
    by (simp add: kenv_example_def)
  then have b: "unat (pci_resource_len ?k) + unat (PAGE_SIZE ?k) - 1 < 2 ^ 64 \<or>
      (unat (PAGE_SIZE ?k) \<le> unat (pci_resource_start ?k) \<and>
       unat (pci_resource_start ?k) + unat (pci_resource_len ?k) \<le> 2 ^ 64)"
    by (rule disjI2)
  have v: "page_align (PAGE_SIZE ?k) (pci_resource_len ?k) = 4096"
    by (simp add: kenv_example_def page_align_def)
  have s: "select_magic_numbers 2 0x5425 (\<lambda>i. 0x5D) = Some ((\<lambda>i. 0x5D)(0 := 0x5C, 1 := 0x5E, 2 := 0x100))"
    by (simp add: select_magic_numbers_def store_magic_def)
  have m1: "magic_scan 2 ((\<lambda>i. 0x5D)(0 := 0x5C, 1 := 0x5E, 2 := 0x100)) 0x5E (Suc 0)"
    by (simp add: magic_scan.simps [of _ _ _ "Suc 0"])
  have m: "magic_scan 2 ((\<lambda>i. 0x5D)(0 := 0x5C, 1 := 0x5E, 2 := 0x100)) 0x5E 0"
    using m1 by (simp add: magic_scan.simps [of _ _ _ 0])
  have "\<exists>info. fst (nvram_uio_pci_probe umem_h_example ?k) = Ret (0, Some info)"
    using m by (simp add: s nvram_uio_pci_probe_def Let_def umem_h_example_def kenv_example_def
          MAX_UIO_MAPS_def zero_info_def index_addr_def page_align_def)
  then obtain info where i: "fst (nvram_uio_pci_probe umem_h_example ?k) = Ret (0, Some info)"
    by blast
  then have "size (mems info (CSR_MAPPING_INDEX umem_h_example)) = 4096"
    using published_size_page_aligned [OF a b, of umem_h_example] v by simp
  then show ?thesis using a b0 v i by blast
qed

subsection \<open>Device discovery\<close>

lemma fgets_chars_Cons:
  "0 < k \<Longrightarrow> fgets_chars k (c # cs) = (if c = NL then [c] else c # fgets_chars (k - 1) cs)"
  by (cases k) simp_all

lemma fgets_chars_Nil: "fgets_chars k [] = []"
  by (cases k) simp_all

lemma decimal_zero: "decimal 0 = ''0''"
  by code_simp

lemmas example_defs = umem_h_example_def env_example_def world_example_def linux_munmap_def
  zero_context_def name_pathname_def snprintf_def PATH_MAX_def UIO_CLASS_ROOT_def
  NL_def NUL_def c_str_def fgets_def driver_name_matches_def log_def Let_def
  EXIT_FAILURE_def EXIT_SUCCESS_def MAP_FAILED_def index_addr_def to_uchar_def

lemma fgets_chars_no_newline:
  "NL \<notin> set (take k cs) \<Longrightarrow> fgets_chars k cs = take k cs"
  by (induction k cs rule: fgets_chars.induct) auto

lemma fgets_chars_whole_line:
  "NL \<notin> set (butlast cs) \<Longrightarrow> length cs \<le> k \<Longrightarrow> fgets_chars k cs = cs"
  by (induction k cs rule: fgets_chars.induct) (auto split: if_splits)

lemma c_str_no_nul: "NUL \<notin> set s \<Longrightarrow> c_str s = s"
  by (auto simp add: c_str_def takeWhile_eq_all_conv)

lemma take_subset_butlast:
  assumes "k < length cs"
  shows "set (take k cs) \<subseteq> set (butlast cs)"
proof -
  have "take k cs = take k (butlast cs)" using assms by (simp add: take_butlast)
  then show ?thesis by (metis set_take_subset)
qed

lemma name_check_single_line:
  assumes h: "driver_name_ok h" and s: "single_line content" and n: "content \<noteq> []"
  shows "driver_name_matches h (fgets_chars 79 content) = Some (trim_newline content = DRIVER_NAME h)"
proof (cases "length content \<le> 79")
  case True
  have b: "fgets_chars 79 content = content"
    using s True by (simp add: single_line_def fgets_chars_whole_line)
  have c: "c_str content = content" using s by (simp add: single_line_def c_str_no_nul)
  have d: "c_str (DRIVER_NAME h) = DRIVER_NAME h"
    using h by (simp add: driver_name_ok_def c_str_no_nul)
  show ?thesis using n by (simp add: driver_name_matches_def b c d trim_newline_def)
next
  case False
  then have l: "79 < length content" by simp
  have sub: "set (take 79 content) \<subseteq> set (butlast content)"
    using l by (rule take_subset_butlast)
  have nn: "NL \<notin> set (take 79 content)" using s sub by (auto simp add: single_line_def)
  have b: "fgets_chars 79 content = take 79 content" using nn by (rule fgets_chars_no_newline)
  have "NUL \<notin> set (take 79 content)" using s by (auto simp add: single_line_def dest: in_set_takeD)
  then have c: "c_str (take 79 content) = take 79 content" by (rule c_str_no_nul)
  have d: "c_str (DRIVER_NAME h) = DRIVER_NAME h"
    using h by (simp add: driver_name_ok_def c_str_no_nul)
  have ne: "take 79 content \<noteq> []" using l by auto
  have la: "last (take 79 content) \<noteq> NL" using nn ne last_in_set by metis
  have len: "length (take 79 content) = 79" using l by simp
  have x: "take 79 content \<noteq> DRIVER_NAME h"
  proof
    assume "take 79 content = DRIVER_NAME h"
    then have "length (DRIVER_NAME h) = 79" using len by simp
    then show False using h by (simp add: driver_name_ok_def)
  qed
  have "79 \<le> length (trim_newline content)" using l by (auto simp add: trim_newline_def)
  then have y: "trim_newline content \<noteq> DRIVER_NAME h"
    using h by (auto simp add: driver_name_ok_def)
  show ?thesis using ne la x y by (simp add: driver_name_matches_def b c d)
qed

lemma scan_entries_match:
  assumes "driver_name_ok h" and "registry_ok e [d]" and "identity_matches h e d"
  shows "scan_entries h e (d # ds) w = (Ret (Some (d_name d)), log (Fopen (name_pathname d)) w)"
proof -
  obtain content where f: "files e (name_pathname d) = Some content"
    and t: "trim_newline content = DRIVER_NAME h" and dl: "directory_like d"
    using assms(3) by (auto simp add: identity_matches_def split: option.splits)
  have s: "single_line content" using assms(2) f by (simp add: registry_ok_def)
  have n: "content \<noteq> []" using t assms(1) by (auto simp add: driver_name_ok_def trim_newline_def)
  have "driver_name_matches h (fgets_chars 79 content) = Some True"
    using name_check_single_line [OF assms(1) s n] t by simp
  then show ?thesis
    using f n dl by (simp add: fgets_def Let_def directory_like_def)
qed

lemma scan_entries_no_match:
  assumes "driver_name_ok h" and "registry_ok e [d]" and "\<not> identity_matches h e d"
  shows "scan_entries h e (d # ds) w =
           scan_entries h e ds (if directory_like d then log (Fopen (name_pathname d)) w else w)"
proof (cases "directory_like d")
  case False
  then show ?thesis by (simp add: directory_like_def)
next
  case True
  show ?thesis
  proof (cases "files e (name_pathname d)")
    case None
    then show ?thesis using True by (simp add: directory_like_def Let_def)
  next
    case (Some content)
    show ?thesis
    proof (cases "content = []")
      case True
      then show ?thesis using Some \<open>directory_like d\<close> by (simp add: directory_like_def Let_def fgets_def)
    next
      case False
      have s: "single_line content" using assms(2) Some by (simp add: registry_ok_def)
      have "trim_newline content \<noteq> DRIVER_NAME h"
        using assms(3) True Some by (simp add: identity_matches_def)
      then have "driver_name_matches h (fgets_chars 79 content) = Some False"
        using name_check_single_line [OF assms(1) s False] by simp
      then show ?thesis
        using Some False True by (simp add: fgets_def Let_def directory_like_def)
    qed
  qed
qed

lemma scan_entries_prefix:
  assumes "driver_name_ok h"
  shows "registry_ok e pre \<Longrightarrow> \<forall>x\<in>set pre. \<not> identity_matches h e x \<Longrightarrow>
     scan_entries h e (pre @ rest) w =
       scan_entries h e rest
         (w\<lparr>trace := trace w @ map (\<lambda>d. Fopen (name_pathname d)) (filter directory_like pre)\<rparr>)"
proof (induction pre arbitrary: w)
  case Nil
  then show ?case by simp
next
  case (Cons d pre)
  have ok: "registry_ok e [d]" "registry_ok e pre" using Cons.prems(1) by (simp_all add: registry_ok_def)
  have nm: "\<not> identity_matches h e d" "\<forall>x\<in>set pre. \<not> identity_matches h e x"
    using Cons.prems(2) by simp_all
  show ?case
    using scan_entries_no_match [OF assms ok(1) nm(1), of "pre @ rest" w]
      Cons.IH [OF ok(2) nm(2)]
    by (simp add: log_def)
qed

lemma scan_entries_unreadable:
  assumes "directory_like d" and "unreadable e d"
  shows "scan_entries h e (d # ds) w = scan_entries h e ds (log (Fopen (name_pathname d)) w)"
  using assms
  by (auto simp add: directory_like_def unreadable_def Let_def fgets_def split: option.splits)

lemma scan_entries_found_readable:
  "scan_entries h e ds w = (Ret (Some nm), w') \<Longrightarrow>
     \<exists>x\<in>set ds. d_name x = nm \<and> directory_like x \<and> \<not> unreadable e x"
proof (induction ds arbitrary: w)
  case Nil
  then show ?case by simp
next
  case (Cons d ds)
  show ?case
  proof (cases "directory_like d \<and> \<not> unreadable e d")
    case False
    then have "scan_entries h e (d # ds) w =
                 scan_entries h e ds (if directory_like d then log (Fopen (name_pathname d)) w else w)"
      using scan_entries_unreadable [of d e h ds w] by (auto simp add: directory_like_def)
    then show ?thesis using Cons.IH Cons.prems by (metis list.set_intros(2))
  next
    case True
    then obtain content where f: "files e (name_pathname d) = Some content" and n: "content \<noteq> []"
      by (auto simp add: unreadable_def split: option.splits)
    show ?thesis
    proof (cases "driver_name_matches h (fgets_chars 79 content)")
      case None
      then show ?thesis
        using Cons.prems True f n by (simp add: directory_like_def Let_def fgets_def)
    next
      case (Some b)
      show ?thesis
      proof (cases b)
        case True
        then have "nm = d_name d"
          using Cons.prems \<open>directory_like d \<and> \<not> unreadable e d\<close> f n Some
          by (simp add: directory_like_def Let_def fgets_def)
        then show ?thesis using \<open>directory_like d \<and> \<not> unreadable e d\<close> by auto
      next
        case False
        then have "scan_entries h e ds (log (Fopen (name_pathname d)) w) = (Ret (Some nm), w')"
          using Cons.prems \<open>directory_like d \<and> \<not> unreadable e d\<close> f n Some
          by (simp add: directory_like_def Let_def fgets_def)
        then show ?thesis using Cons.IH by (metis list.set_intros(2))
      qed
    qed
  qed
qed

lemma scan_entries_none_trace:
  "scan_entries h e ds w = (Ret None, w') \<Longrightarrow>
     w' = w\<lparr>trace := trace w @ map (\<lambda>x. Fopen (name_pathname x)) (filter directory_like ds)\<rparr>"
proof (induction ds arbitrary: w)
  case Nil
  then show ?case by simp
next
  case (Cons d ds)
  have "scan_entries h e ds (if directory_like d then log (Fopen (name_pathname d)) w else w) = (Ret None, w')"
    using Cons.prems
    by (auto simp add: directory_like_def Let_def split: option.splits bool.splits if_splits)
  then have "w' = (if directory_like d then log (Fopen (name_pathname d)) w else w)
      \<lparr>trace := trace (if directory_like d then log (Fopen (name_pathname d)) w else w) @
         map (\<lambda>x. Fopen (name_pathname x)) (filter directory_like ds)\<rparr>"
    by (rule Cons.IH)
  then show ?case by (simp add: log_def)
qed

lemma scan_entries_no_exit: "fst (scan_entries h e ds w) \<noteq> Exit n"
  by (induction ds arbitrary: w)
     (auto simp add: Let_def split: option.splits bool.splits)

lemma find_uio_device_exit:
  assumes "find_uio_device h e w = (Exit n, w')"
  shows "n = EXIT_FAILURE \<and> (\<exists>t fmt args. trace w' = t @ [Printf fmt args])"
proof (cases "uio_dir e")
  case None
  then show ?thesis using assms by (auto simp add: find_uio_device_def log_def)
next
  case (Some ds)
  obtain r w1 where s: "scan_entries h e ds w = (r, w1)" by (cases "scan_entries h e ds w") auto
  have ne: "r \<noteq> Exit n" using scan_entries_no_exit [of h e ds w n] s by simp
  show ?thesis
    using assms Some s ne
    by (cases r) (auto simp add: find_uio_device_def and_then_def log_def split: option.splits)
qed

lemmas registry_defs = registry_ok_def single_line_def identity_matches_def directory_like_def
  trim_newline_def unreadable_def driver_name_ok_def name_pathname_def snprintf_def PATH_MAX_def
  UIO_CLASS_ROOT_def NL_def NUL_def

text \<open>
  Claim C6, as stated, on a registry where the name file of \<^verbatim>\<open>uio0\<close> has two
  lines, the first of them the driver name, and the name file of \<^verbatim>\<open>uio1\<close> is
  the driver name alone: the identity attribute of \<^verbatim>\<open>uio0\<close>, trimmed of a
  trailing newline, is not the driver name and that of \<^verbatim>\<open>uio1\<close> is, yet
  \<open>find_uio_device\<close> returns \<^verbatim>\<open>uio0\<close>, since \<^verbatim>\<open>fgets\<close> reads the first line only.
\<close>

theorem locator_first_line_counterexample:
  "\<not> identity_matches umem_h_example
       ((env_example ''0x0\<newline>'')\<lparr>files := map_of
          [(''/sys/class/uio/uio0/name'', ''nvram_uio\<newline>second line\<newline>''),
           (''/sys/class/uio/uio1/name'', ''nvram_uio\<newline>'')]\<rparr>)
       \<lparr>d_name = ''uio0'', d_type = DT_LNK\<rparr> \<and>
   identity_matches umem_h_example
       ((env_example ''0x0\<newline>'')\<lparr>files := map_of
          [(''/sys/class/uio/uio0/name'', ''nvram_uio\<newline>second line\<newline>''),
           (''/sys/class/uio/uio1/name'', ''nvram_uio\<newline>'')]\<rparr>)
       \<lparr>d_name = ''uio1'', d_type = DT_LNK\<rparr> \<and>
   find_uio_device umem_h_example
       ((env_example ''0x0\<newline>'')\<lparr>files := map_of
          [(''/sys/class/uio/uio0/name'', ''nvram_uio\<newline>second line\<newline>''),
           (''/sys/class/uio/uio1/name'', ''nvram_uio\<newline>'')]\<rparr>)
       world_example =
     (Ret (zero_context\<lparr>device_name := ''uio0''\<rparr>),
      world_example\<lparr>trace :=
        [Fopen ''/sys/class/uio/./name'', Fopen ''/sys/class/uio/uio0/name'']\<rparr>)"
  by (simp add: find_uio_device_def and_then_def example_defs registry_defs
        fgets_chars_Cons fgets_chars_Nil)

text \<open>
  Claim C6, amended. Let the driver name be a non-empty string without NUL of
  fewer than 79 characters, and let every identity attribute file the scan
  reads be a single line of text (no NUL, no newline except as the last
  character). When the class root cannot be opened, \<open>find_uio_device\<close>
  prints a diagnostic and ends the process with \<open>EXIT_FAILURE\<close>. When the
  enumeration is \<open>pre @ d # post\<close>, no entry of \<open>pre\<close> matches and \<open>d\<close>
  matches (it is directory-like and its identity attribute, trimmed of a
  trailing newline, equals the driver name), the function returns the name of
  \<open>d\<close> and has opened the attribute files of the directory-like entries of
  \<open>pre @ [d]\<close> only: the scan stops at \<open>d\<close>. When no entry matches, it has
  opened the attribute file of every directory-like entry, prints a diagnostic
  and ends the process with \<open>EXIT_FAILURE\<close>, returning no entry.
\<close>

theorem locator_first_match:
  assumes "driver_name_ok h"
  shows
  "(uio_dir e = None \<longrightarrow>
      find_uio_device h e w =
        (Exit EXIT_FAILURE, log (Printf ''Failed to open %s\<newline>'' [Str UIO_CLASS_ROOT]) w)) \<and>
   (uio_dir e = Some (pre @ d # post) \<and> registry_ok e (pre @ [d]) \<and>
    (\<forall>x\<in>set pre. \<not> identity_matches h e x) \<and> identity_matches h e d \<longrightarrow>
      find_uio_device h e w =
        (Ret (zero_context\<lparr>device_name := d_name d\<rparr>),
         w\<lparr>trace := trace w @
              map (\<lambda>x. Fopen (name_pathname x)) (filter directory_like (pre @ [d]))\<rparr>)) \<and>
   (uio_dir e = Some ds \<and> registry_ok e ds \<and> (\<forall>x\<in>set ds. \<not> identity_matches h e x) \<longrightarrow>
      find_uio_device h e w =
        (Exit EXIT_FAILURE,
         w\<lparr>trace := trace w @
              map (\<lambda>x. Fopen (name_pathname x)) (filter directory_like ds) @
              [Printf ''Failed to find entry for %s under %s\<newline>''
                 [Str (DRIVER_NAME h), Str UIO_CLASS_ROOT]]\<rparr>))"
proof (intro conjI; rule impI)
  assume "uio_dir e = None"
  then show "find_uio_device h e w =
        (Exit EXIT_FAILURE, log (Printf ''Failed to open %s\<newline>'' [Str UIO_CLASS_ROOT]) w)"
    by (simp add: find_uio_device_def)
next
  assume a: "uio_dir e = Some (pre @ d # post) \<and> registry_ok e (pre @ [d]) \<and>
    (\<forall>x\<in>set pre. \<not> identity_matches h e x) \<and> identity_matches h e d"
  then have ok: "registry_ok e pre" "registry_ok e [d]" by (simp_all add: registry_ok_def)
  have dl: "directory_like d" using a by (simp add: identity_matches_def)
  have "scan_entries h e (pre @ d # post) w =
          (Ret (Some (d_name d)),
           w\<lparr>trace := trace w @
                map (\<lambda>x. Fopen (name_pathname x)) (filter directory_like (pre @ [d]))\<rparr>)"
    using a dl scan_entries_prefix [OF assms ok(1), of "d # post" w]
      scan_entries_match [OF assms ok(2), of post]
    by (simp add: log_def)
  then show "find_uio_device h e w =
        (Ret (zero_context\<lparr>device_name := d_name d\<rparr>),
         w\<lparr>trace := trace w @
              map (\<lambda>x. Fopen (name_pathname x)) (filter directory_like (pre @ [d]))\<rparr>)"
    using a by (simp add: find_uio_device_def and_then_def)
next
  assume a: "uio_dir e = Some ds \<and> registry_ok e ds \<and> (\<forall>x\<in>set ds. \<not> identity_matches h e x)"
  have "scan_entries h e ds w =
          (Ret None,
           w\<lparr>trace := trace w @ map (\<lambda>x. Fopen (name_pathname x)) (filter directory_like ds)\<rparr>)"
    using a scan_entries_prefix [OF assms, of e ds "[]" w] by simp
  then show "find_uio_device h e w =
        (Exit EXIT_FAILURE,
         w\<lparr>trace := trace w @
              map (\<lambda>x. Fopen (name_pathname x)) (filter directory_like ds) @
              [Printf ''Failed to find entry for %s under %s\<newline>''
                 [Str (DRIVER_NAME h), Str UIO_CLASS_ROOT]]\<rparr>)"
    using a by (simp add: find_uio_device_def and_then_def log_def)
qed

theorem locator_first_match_witness:
  "driver_name_ok umem_h_example \<and>
   find_uio_device umem_h_example ((env_example ''0x0\<newline>'')\<lparr>uio_dir := None\<rparr>) world_example =
     (Exit EXIT_FAILURE, log (Printf ''Failed to open %s\<newline>'' [Str UIO_CLASS_ROOT]) world_example) \<and>
   find_uio_device umem_h_example (env_example ''0x0\<newline>'') world_example =
     (Ret (zero_context\<lparr>device_name := ''uio1''\<rparr>),
      world_example\<lparr>trace :=
        [Fopen ''/sys/class/uio/./name'', Fopen ''/sys/class/uio/uio0/name'',
         Fopen ''/sys/class/uio/uio1/name'']\<rparr>) \<and>
   fst (find_uio_device umem_h_example
          ((env_example ''0x0\<newline>'')\<lparr>uio_dir := Some [\<lparr>d_name = ''uio0'', d_type = DT_LNK\<rparr>]\<rparr>)
          world_example) = Exit EXIT_FAILURE"
proof -
  let ?h = umem_h_example and ?e = "env_example ''0x0\<newline>''"
  let ?dot = "\<lparr>d_name = ''.'', d_type = DT_DIR\<rparr>"
  let ?u0 = "\<lparr>d_name = ''uio0'', d_type = DT_LNK\<rparr>"
  let ?u1 = "\<lparr>d_name = ''uio1'', d_type = DT_LNK\<rparr>"
  let ?u2 = "\<lparr>d_name = ''uio2'', d_type = DT_LNK\<rparr>"
  have h: "driver_name_ok ?h" by (simp add: umem_h_example_def registry_defs)
  have A: "find_uio_device ?h (?e\<lparr>uio_dir := None\<rparr>) world_example =
     (Exit EXIT_FAILURE, log (Printf ''Failed to open %s\<newline>'' [Str UIO_CLASS_ROOT]) world_example)"
    using locator_first_match [OF h, of "?e\<lparr>uio_dir := None\<rparr>" world_example] by simp
  have b1: "uio_dir ?e = Some ([?dot, ?u0] @ ?u1 # [?u2])" by (simp add: env_example_def)
  have b2: "registry_ok ?e ([?dot, ?u0] @ [?u1])"
    by (simp add: env_example_def registry_defs)
  have b3: "\<forall>x\<in>set [?dot, ?u0]. \<not> identity_matches ?h ?e x"
    by (simp add: env_example_def umem_h_example_def registry_defs)
  have b4: "identity_matches ?h ?e ?u1"
    by (simp add: env_example_def umem_h_example_def registry_defs)
  have B: "find_uio_device ?h ?e world_example =
     (Ret (zero_context\<lparr>device_name := ''uio1''\<rparr>),
      world_example\<lparr>trace :=
        [Fopen ''/sys/class/uio/./name'', Fopen ''/sys/class/uio/uio0/name'',
         Fopen ''/sys/class/uio/uio1/name'']\<rparr>)"
    using b1 b2 b3 b4
      locator_first_match [OF h, of ?e world_example "[?dot, ?u0]" ?u1 "[?u2]"]
    by (simp add: registry_defs world_example_def)
  let ?eC = "?e\<lparr>uio_dir := Some [?u0]\<rparr>"
  have c1: "uio_dir ?eC = Some [?u0]" by simp
  have c2: "registry_ok ?eC [?u0]" by (simp add: env_example_def registry_defs)
  have c3: "\<forall>x\<in>set [?u0]. \<not> identity_matches ?h ?eC x"
    by (simp add: env_example_def umem_h_example_def registry_defs)
  have C: "fst (find_uio_device ?h ?eC world_example) = Exit EXIT_FAILURE"
    using c1 c2 c3 locator_first_match [OF h, of ?eC world_example _ _ _ "[?u0]"] by simp
  show ?thesis using h A B C by simp
qed

text \<open>
  Claim C10. A directory-like entry whose identity attribute file cannot be
  opened, or is empty, is passed over with no output and the scan goes on with
  the next entry. An entry that is returned is directory-like and readable.
  When \<open>find_uio_device\<close> has opened the class root and ends the process, it
  has gone through the whole enumeration before it prints its diagnostic.
\<close>

theorem unreadable_entry_skipped:
  "(directory_like d \<and> unreadable e d \<longrightarrow>
      scan_entries h e (d # ds) w = scan_entries h e ds (log (Fopen (name_pathname d)) w)) \<and>
   (scan_entries h e ds w = (Ret (Some nm), w') \<longrightarrow>
      (\<exists>x\<in>set ds. d_name x = nm \<and> directory_like x \<and> \<not> unreadable e x)) \<and>
   (uio_dir e = Some ds \<and> find_uio_device h e w = (Exit n, w') \<longrightarrow>
      n = EXIT_FAILURE \<and>
      w' = w\<lparr>trace := trace w @
                map (\<lambda>x. Fopen (name_pathname x)) (filter directory_like ds) @
                [Printf ''Failed to find entry for %s under %s\<newline>''
                   [Str (DRIVER_NAME h), Str UIO_CLASS_ROOT]]\<rparr>)"
proof (intro conjI; rule impI)
  assume "directory_like d \<and> unreadable e d"
  then show "scan_entries h e (d # ds) w = scan_entries h e ds (log (Fopen (name_pathname d)) w)"
    using scan_entries_unreadable by blast
next
  assume "scan_entries h e ds w = (Ret (Some nm), w')"
  then show "\<exists>x\<in>set ds. d_name x = nm \<and> directory_like x \<and> \<not> unreadable e x"
    by (rule scan_entries_found_readable)
next
  assume a: "uio_dir e = Some ds \<and> find_uio_device h e w = (Exit n, w')"
  obtain r w1 where s: "scan_entries h e ds w = (r, w1)" by (cases "scan_entries h e ds w") auto
  have ne: "r \<noteq> Exit n" using scan_entries_no_exit [of h e ds w n] s by simp
  have "r = Ret None \<and> n = EXIT_FAILURE \<and>
        w' = log (Printf ''Failed to find entry for %s under %s\<newline>''
                   [Str (DRIVER_NAME h), Str UIO_CLASS_ROOT]) w1"
    using a s ne
    by (cases r) (auto simp add: find_uio_device_def and_then_def split: option.splits)
  then show "n = EXIT_FAILURE \<and>
      w' = w\<lparr>trace := trace w @
                map (\<lambda>x. Fopen (name_pathname x)) (filter directory_like ds) @
                [Printf ''Failed to find entry for %s under %s\<newline>''
                   [Str (DRIVER_NAME h), Str UIO_CLASS_ROOT]]\<rparr>"
    using scan_entries_none_trace [of h e ds w w1] s by (simp add: log_def)
qed

theorem unreadable_entry_skipped_witness:
  "directory_like \<lparr>d_name = ''.'', d_type = DT_DIR\<rparr> \<and>
   unreadable (env_example ''0x0\<newline>'') \<lparr>d_name = ''.'', d_type = DT_DIR\<rparr> \<and>
   scan_entries umem_h_example (env_example ''0x0\<newline>'')
     [\<lparr>d_name = ''.'', d_type = DT_DIR\<rparr>, \<lparr>d_name = ''uio1'', d_type = DT_LNK\<rparr>] world_example =
   scan_entries umem_h_example (env_example ''0x0\<newline>'')
     [\<lparr>d_name = ''uio1'', d_type = DT_LNK\<rparr>]
     (log (Fopen ''/sys/class/uio/./name'') world_example) \<and>
   scan_entries umem_h_example (env_example ''0x0\<newline>'')
     [\<lparr>d_name = ''.'', d_type = DT_DIR\<rparr>, \<lparr>d_name = ''uio1'', d_type = DT_LNK\<rparr>] world_example =
     (Ret (Some ''uio1''),
      world_example\<lparr>trace := [Fopen ''/sys/class/uio/./name'', Fopen ''/sys/class/uio/uio1/name'']\<rparr>) \<and>
   (\<exists>x\<in>set [\<lparr>d_name = ''.'', d_type = DT_DIR\<rparr>, \<lparr>d_name = ''uio1'', d_type = DT_LNK\<rparr>].
      d_name x = ''uio1'' \<and> directory_like x \<and> \<not> unreadable (env_example ''0x0\<newline>'') x) \<and>
   find_uio_device umem_h_example
     ((env_example ''0x0\<newline>'')\<lparr>uio_dir := Some [\<lparr>d_name = ''.'', d_type = DT_DIR\<rparr>]\<rparr>)
     world_example =
     (Exit EXIT_FAILURE,
      world_example\<lparr>trace :=
        [Fopen ''/sys/class/uio/./name'',
         Printf ''Failed to find entry for %s under %s\<newline>''
           [Str ''nvram_uio'', Str ''/sys/class/uio'']]\<rparr>)"
proof -
  let ?h = umem_h_example and ?e = "env_example ''0x0\<newline>''"
  let ?dot = "\<lparr>d_name = ''.'', d_type = DT_DIR\<rparr>"
  let ?u1 = "\<lparr>d_name = ''uio1'', d_type = DT_LNK\<rparr>"
  let ?e3 = "?e\<lparr>uio_dir := Some [?dot]\<rparr>"
  have a: "directory_like ?dot" by (simp add: directory_like_def)
  have b: "unreadable ?e ?dot"
    by (simp add: env_example_def registry_defs)
  have n: "name_pathname ?dot = ''/sys/class/uio/./name''" by (simp add: registry_defs)
  have p1: "scan_entries ?h ?e [?dot, ?u1] world_example =
      scan_entries ?h ?e [?u1] (log (Fopen ''/sys/class/uio/./name'') world_example)"
    using a b n unreadable_entry_skipped [of ?dot ?e ?h "[?u1]" world_example]
    by simp
  have s: "scan_entries ?h ?e [?dot, ?u1] world_example =
     (Ret (Some ''uio1''),
      world_example\<lparr>trace := [Fopen ''/sys/class/uio/./name'', Fopen ''/sys/class/uio/uio1/name'']\<rparr>)"
    by (simp add: example_defs fgets_chars_Cons fgets_chars_Nil)
  have p2: "\<exists>x\<in>set [?dot, ?u1]. d_name x = ''uio1'' \<and> directory_like x \<and> \<not> unreadable ?e x"
    using s unreadable_entry_skipped [where h = ?h and e = ?e and ds = "[?dot, ?u1]"
         and w = world_example and nm = "''uio1''"
         and w' = "world_example\<lparr>trace := [Fopen ''/sys/class/uio/./name'', Fopen ''/sys/class/uio/uio1/name'']\<rparr>"]
    by blast
  obtain n3 w3 where f: "find_uio_device ?h ?e3 world_example = (Exit n3, w3)"
    by (simp add: find_uio_device_def and_then_def example_defs)
  have u: "uio_dir ?e3 = Some [?dot]" by simp
  have "n3 = EXIT_FAILURE \<and>
        w3 = world_example\<lparr>trace := trace world_example @
                map (\<lambda>x. Fopen (name_pathname x)) (filter directory_like [?dot]) @
                [Printf ''Failed to find entry for %s under %s\<newline>''
                   [Str (DRIVER_NAME ?h), Str UIO_CLASS_ROOT]]\<rparr>"
    using u f unreadable_entry_skipped [where h = ?h and e = ?e3 and ds = "[?dot]"
         and w = world_example and n = n3 and w' = w3]
    by blast
  then have p3: "find_uio_device ?h ?e3 world_example =
     (Exit EXIT_FAILURE,
      world_example\<lparr>trace :=
        [Fopen ''/sys/class/uio/./name'',
         Printf ''Failed to find entry for %s under %s\<newline>''
           [Str ''nvram_uio'', Str ''/sys/class/uio'']]\<rparr>)"
    using f a n by (simp add: world_example_def umem_h_example_def UIO_CLASS_ROOT_def)
  show ?thesis using a b p1 s p2 p3 by blast
qed

subsection \<open>Mapping the registers\<close>

lemma find_example:
  "find_uio_device umem_h_example (env_example t) world_example =
     (Ret (zero_context\<lparr>device_name := ''uio1''\<rparr>),
      world_example\<lparr>trace := [Fopen ''/sys/class/uio/./name'', Fopen ''/sys/class/uio/uio0/name'',
         Fopen ''/sys/class/uio/uio1/name'']\<rparr>)"
  by (simp add: find_uio_device_def and_then_def example_defs fgets_chars_Cons fgets_chars_Nil)

lemma get_example:
  "get_uio_device_parameters umem_h_example (env_example ''0x0\<newline>'')
     (zero_context\<lparr>device_name := ''uio1''\<rparr>) w =
   (Ret (zero_context\<lparr>device_name := ''uio1'', csr_mmap_offset := 0, csr_mmap_size := 0x1000\<rparr>),
    w\<lparr>trace := trace w @ [Fopen ''/sys/class/uio/uio1/maps/map0/offset'',
                            Fopen ''/sys/class/uio/uio1/maps/map0/size'']\<rparr>)"
  by (simp add: get_uio_device_parameters_def read_uio_mapping_param_def and_then_def example_defs
        decimal_zero)

lemma get_example_unparsable:
  "get_uio_device_parameters umem_h_example (env_example ''zz'')
     (zero_context\<lparr>device_name := ''uio1''\<rparr>) w =
   (Exit EXIT_FAILURE,
    w\<lparr>trace := trace w @ [Fopen ''/sys/class/uio/uio1/maps/map0/offset'',
       Printf ''Failed to read value from %s\<newline>'' [Str ''/sys/class/uio/uio1/maps/map0/offset'']]\<rparr>)"
  by (simp add: get_uio_device_parameters_def read_uio_mapping_param_def and_then_def example_defs
        decimal_zero)

lemma open_example:
  "open_uio_device umem_h_example (env_example t)
     (zero_context\<lparr>device_name := ''uio1'', csr_mmap_offset := off, csr_mmap_size := 0x1000\<rparr>) w =
   (Ret (zero_context\<lparr>device_name := ''uio1'', csr_mmap_offset := off, csr_mmap_size := 0x1000,
           device_fd := 3, csr := 0x7F0000001000 + ucast off,
           memctrlstatus_magic := 0x7F0000001000 + ucast off,
           memctrlstatus_memory := 0x7F0000001000 + ucast off + 7,
           memctrlstatus_battery := 0x7F0000001000 + ucast off + 4,
           memctrlcmd_ledctrl := 0x7F0000001000 + ucast off + 8,
           memctrlcmd_errctrl := 0x7F0000001000 + ucast off + 12\<rparr>),
    w\<lparr>trace := trace w @ [Open_rdwr ''/dev/uio1'' 3, Mmap 0x1000 3 0 0x7F0000001000]\<rparr>)"
  by (simp add: open_uio_device_def example_defs)

lemma open_uio_device_exit:
  assumes "open_uio_device h e context w = (Exit n, w')"
  shows "n = EXIT_FAILURE \<and> (\<exists>t fmt args. trace w' = t @ [Printf fmt args, Perror])"
  using assms
  by (auto simp add: open_uio_device_def Let_def log_def split: if_splits)

lemma read_uio_mapping_param_exit:
  assumes "read_uio_mapping_param e nm i pn w = (Exit n, w')"
  shows "n = EXIT_FAILURE \<and> (\<exists>t fmt args. trace w' = t @ [Printf fmt args])"
  using assms
  by (auto simp add: read_uio_mapping_param_def Let_def log_def split: option.splits)

lemma get_uio_device_parameters_exit:
  assumes "get_uio_device_parameters h e c w = (Exit n, w')"
  shows "n = EXIT_FAILURE \<and> (\<exists>t fmt args. trace w' = t @ [Printf fmt args])"
proof (cases "read_uio_mapping_param e (device_name c) (CSR_MAPPING_INDEX h) ''offset'' w")
  case (Pair r w1)
  show ?thesis
  proof (cases r)
    case (Ret off)
    then obtain r2 w2 where s: "read_uio_mapping_param e (device_name c) (CSR_MAPPING_INDEX h) ''size'' w1 = (r2, w2)"
      by (cases "read_uio_mapping_param e (device_name c) (CSR_MAPPING_INDEX h) ''size'' w1") auto
    then have "r2 = Exit n \<and> w2 = w'"
      using assms Pair Ret
      by (cases r2) (auto simp add: get_uio_device_parameters_def and_then_def)
    then show ?thesis using read_uio_mapping_param_exit s by blast
  next
    case (Exit m)
    then have "m = n \<and> w1 = w'"
      using assms Pair by (auto simp add: get_uio_device_parameters_def and_then_def)
    then show ?thesis using read_uio_mapping_param_exit Pair Exit by blast
  next
    case Undefined
    then show ?thesis
      using assms Pair by (auto simp add: get_uio_device_parameters_def and_then_def)
  qed
qed

text \<open>
  Claim C4. When \<open>open_uio_device\<close> returns, the address \<open>csr\<close> of the
  context is the address \<^verbatim>\<open>mmap\<close> returned plus the published offset, each of
  the five register pointers is \<open>csr\<close> plus the offset of its register, and
  the byte read through a register pointer is the byte at the mapped base plus
  the published offset plus the register offset.
\<close>

theorem csr_base_and_accessors:
  assumes "open_uio_device h e context w = (Ret context', w')"
  shows "\<exists>fd base.
     fd = open_rc e (snprintf PATH_MAX (''/dev/'' @ device_name context)) \<and>
     base = mmap_rc e (ucast (csr_mmap_size context)) fd (int (CSR_MAPPING_INDEX h) * getpagesize e) \<and>
     trace w' = trace w @
       [Open_rdwr (snprintf PATH_MAX (''/dev/'' @ device_name context)) fd,
        Mmap (ucast (csr_mmap_size context)) fd (int (CSR_MAPPING_INDEX h) * getpagesize e) base] \<and>
     fd \<noteq> - 1 \<and> base \<noteq> MAP_FAILED \<and> mem w' = mem w \<and>
     csr_mmap_offset context' = csr_mmap_offset context \<and>
     csr_mmap_size context' = csr_mmap_size context \<and>
     device_fd context' = fd \<and>
     csr context' = base + ucast (csr_mmap_offset context) \<and>
     memctrlstatus_magic context' = csr context' + word_of_int (MEMCTRLSTATUS_MAGIC h) \<and>
     memctrlstatus_memory context' = csr context' + word_of_int (MEMCTRLSTATUS_MEMORY h) \<and>
     memctrlstatus_battery context' = csr context' + word_of_int (MEMCTRLSTATUS_BATTERY h) \<and>
     memctrlcmd_ledctrl context' = csr context' + word_of_int (MEMCTRLCMD_LEDCTRL h) \<and>
     memctrlcmd_errctrl context' = csr context' + word_of_int (MEMCTRLCMD_ERRCTRL h) \<and>
     mem w' (memctrlstatus_magic context') =
       mem w' (base + (ucast (csr_mmap_offset context) + word_of_int (MEMCTRLSTATUS_MAGIC h))) \<and>
     mem w' (memctrlstatus_memory context') =
       mem w' (base + (ucast (csr_mmap_offset context) + word_of_int (MEMCTRLSTATUS_MEMORY h))) \<and>
     mem w' (memctrlstatus_battery context') =
       mem w' (base + (ucast (csr_mmap_offset context) + word_of_int (MEMCTRLSTATUS_BATTERY h))) \<and>
     mem w' (memctrlcmd_ledctrl context') =
       mem w' (base + (ucast (csr_mmap_offset context) + word_of_int (MEMCTRLCMD_LEDCTRL h))) \<and>
     mem w' (memctrlcmd_errctrl context') =
       mem w' (base + (ucast (csr_mmap_offset context) + word_of_int (MEMCTRLCMD_ERRCTRL h)))"
  using assms
  by (auto simp add: open_uio_device_def Let_def log_def index_addr_def add.assoc
        split: if_splits)

theorem csr_base_and_accessors_witness:
  "\<exists>ctx w'.
     open_uio_device umem_h_example (env_example ''0x10\<newline>'')
       (zero_context\<lparr>device_name := ''uio1'', csr_mmap_offset := 0x10, csr_mmap_size := 0x1000\<rparr>)
       world_example = (Ret ctx, w') \<and>
     csr ctx = 0x7F0000001010 \<and>
     memctrlcmd_ledctrl ctx = 0x7F0000001018 \<and>
     mem w' (memctrlcmd_ledctrl ctx) = mem w' (0x7F0000001000 + (0x10 + 8))"
proof -
  let ?c = "zero_context\<lparr>device_name := ''uio1'', csr_mmap_offset := 0x10, csr_mmap_size := 0x1000\<rparr>"
  obtain ctx w' where o: "open_uio_device umem_h_example (env_example ''0x10\<newline>'') ?c world_example = (Ret ctx, w')"
    using open_example [of "''0x10\<newline>''" "0x10" world_example] by blast
  have "csr ctx = 0x7F0000001010 \<and> memctrlcmd_ledctrl ctx = 0x7F0000001018 \<and>
     mem w' (memctrlcmd_ledctrl ctx) = mem w' (0x7F0000001000 + (0x10 + 8))"
    using csr_base_and_accessors [OF o]
    by (simp add: zero_context_def umem_h_example_def env_example_def snprintf_def PATH_MAX_def)
  then show ?thesis using o by blast
qed

subsection \<open>Teardown\<close>

text \<open>
  Claim C5 at a published offset of \<open>0x10\<close>. \<open>open_uio_device\<close> maps the
  window at \<open>0x7F0000001000\<close> and advances \<open>csr\<close> by the offset;
  \<open>close_uio_device\<close> passes the advanced address \<open>0x7F0000001010\<close> to
  \<^verbatim>\<open>munmap\<close>, which refuses an address that is not page aligned. The program
  prints \<^verbatim>\<open>Failed to munmap\<close> and ends with \<open>EXIT_FAILURE\<close>; the mapping is
  not released and the file descriptor is not closed.
\<close>

theorem teardown_fails_with_offset:
  "and_then
     (open_uio_device umem_h_example (env_example ''0x10\<newline>'')
        (zero_context\<lparr>device_name := ''uio1'', csr_mmap_offset := 0x10, csr_mmap_size := 0x1000\<rparr>)
        world_example)
     (close_uio_device (env_example ''0x10\<newline>'')) =
   (Exit EXIT_FAILURE,
    world_example\<lparr>trace :=
      [Open_rdwr ''/dev/uio1'' 3,
       Mmap 0x1000 3 0 0x7F0000001000,
       Munmap 0x7F0000001010 0x1000 (- 1),
       Printf ''Failed to munmap %s\<newline>'' [Str ''uio1'']]\<rparr>)"
  by (simp add: open_uio_device_def close_uio_device_def and_then_def example_defs)

subsection \<open>The whole program\<close>

lemma set_led_value_defined:
  assumes "0 \<le> shift" and "shift < 32"
  shows "\<exists>v. set_led_value h shift state led = Some v"
  using assms by (simp add: set_led_value_def Let_def)

lemma main_success:
  assumes f: "find_uio_device h e w = (Ret c0, w1)"
    and g: "get_uio_device_parameters h e c0 w1 = (Ret c1, w2)"
    and o: "open_uio_device h e c1 w2 = (Ret context, w3)"
    and s: "0 \<le> LED_FAULT h" "LED_FAULT h < 32"
    and u: "munmap_rc e (csr context) (ucast (csr_mmap_size context)) = 0"
  shows "\<exists>v1 v2 v3 v4 w'.
     main h e w = (Ret EXIT_SUCCESS, w') \<and>
     set_led_value h (LED_FAULT h) (to_uchar (LED_ON h)) (mem w3 (memctrlcmd_ledctrl context)) = Some v1 \<and>
     set_led_value h (LED_FAULT h) (to_uchar (LED_FLASH_7_0 h)) v1 = Some v2 \<and>
     set_led_value h (LED_FAULT h) (to_uchar (LED_FLASH_3_5 h)) v2 = Some v3 \<and>
     set_led_value h (LED_FAULT h) (to_uchar (LED_OFF h)) v3 = Some v4 \<and>
     trace w' = trace w3 @
       [Load (memctrlstatus_magic context) (mem w3 (memctrlstatus_magic context)),
        Printf ''memctrlstatus_magic=0x%x\<newline>'' [Num (unat (mem w3 (memctrlstatus_magic context)))],
        Load (memctrlstatus_memory context) (mem w3 (memctrlstatus_memory context)),
        Printf ''memctrlstatus_memory=0x%x\<newline>'' [Num (unat (mem w3 (memctrlstatus_memory context)))],
        Load (memctrlstatus_battery context) (mem w3 (memctrlstatus_battery context)),
        Printf ''memctrlstatus_battery=0x%x\<newline>'' [Num (unat (mem w3 (memctrlstatus_battery context)))],
        Load (memctrlcmd_ledctrl context) (mem w3 (memctrlcmd_ledctrl context)),
        Printf ''memctrlcmd_ledctrl=0x%x\<newline>'' [Num (unat (mem w3 (memctrlcmd_ledctrl context)))],
        Load (memctrlcmd_errctrl context) (mem w3 (memctrlcmd_errctrl context)),
        Printf ''memctrlcmd_errctrl=0x%x\<newline>'' [Num (unat (mem w3 (memctrlcmd_errctrl context)))],
        Load (memctrlcmd_ledctrl context) (mem w3 (memctrlcmd_ledctrl context)),
        Store (memctrlcmd_ledctrl context) v1,
        Load (memctrlcmd_ledctrl context) v1,
        Store (memctrlcmd_ledctrl context) v2,
        Load (memctrlcmd_ledctrl context) v2,
        Store (memctrlcmd_ledctrl context) v3,
        Load (memctrlcmd_ledctrl context) v3,
        Store (memctrlcmd_ledctrl context) v4,
        Munmap (csr context) (ucast (csr_mmap_size context)) 0,
        Close (device_fd context)]"
proof -
  let ?p = "memctrlcmd_ledctrl context"
  obtain v1 where v1: "set_led_value h (LED_FAULT h) (to_uchar (LED_ON h)) (mem w3 ?p) = Some v1"
    using set_led_value_defined [OF s] by blast
  obtain v2 where v2: "set_led_value h (LED_FAULT h) (to_uchar (LED_FLASH_7_0 h)) v1 = Some v2"
    using set_led_value_defined [OF s] by blast
  obtain v3 where v3: "set_led_value h (LED_FAULT h) (to_uchar (LED_FLASH_3_5 h)) v2 = Some v3"
    using set_led_value_defined [OF s] by blast
  obtain v4 where v4: "set_led_value h (LED_FAULT h) (to_uchar (LED_OFF h)) v3 = Some v4"
    using set_led_value_defined [OF s] by blast
  show ?thesis
    using u
    by (simp add: main_def and_then_def f g o v1 v2 v3 v4 print_register_def set_led_def
          close_uio_device_def Let_def log_def)
qed

lemma scan_entries_files:
  "files e' = files e \<Longrightarrow> scan_entries h e' ds w = scan_entries h e ds w"
  by (induction ds arbitrary: w) (auto simp add: Let_def split: option.splits bool.splits)

lemma find_uio_device_files:
  "uio_dir e' = uio_dir e \<Longrightarrow> files e' = files e \<Longrightarrow> find_uio_device h e' w = find_uio_device h e w"
  by (simp add: find_uio_device_def scan_entries_files [of e' e] split: option.splits)

lemma read_uio_mapping_param_files:
  "files e' = files e \<Longrightarrow> fscanf_0x_x e' = fscanf_0x_x e \<Longrightarrow>
   read_uio_mapping_param e' nm i pn w = read_uio_mapping_param e nm i pn w"
  by (simp add: read_uio_mapping_param_def Let_def cong: option.case_cong)

lemma get_uio_device_parameters_files:
  "files e' = files e \<Longrightarrow> fscanf_0x_x e' = fscanf_0x_x e \<Longrightarrow>
   get_uio_device_parameters h e' c w = get_uio_device_parameters h e c w"
  by (simp add: get_uio_device_parameters_def read_uio_mapping_param_files [of e' e])

lemma main_example_success:
  "\<exists>w'. main umem_h_example (env_example ''0x0\<newline>'') world_example = (Ret EXIT_SUCCESS, w') \<and>
     trace w' =
       [Fopen ''/sys/class/uio/./name'', Fopen ''/sys/class/uio/uio0/name'',
        Fopen ''/sys/class/uio/uio1/name'',
        Fopen ''/sys/class/uio/uio1/maps/map0/offset'',
        Fopen ''/sys/class/uio/uio1/maps/map0/size'',
        Open_rdwr ''/dev/uio1'' 3, Mmap 0x1000 3 0 0x7F0000001000,
        Load 0x7F0000001000 0, Printf ''memctrlstatus_magic=0x%x\<newline>'' [Num 0],
        Load 0x7F0000001007 0, Printf ''memctrlstatus_memory=0x%x\<newline>'' [Num 0],
        Load 0x7F0000001004 0, Printf ''memctrlstatus_battery=0x%x\<newline>'' [Num 0],
        Load 0x7F0000001008 0, Printf ''memctrlcmd_ledctrl=0x%x\<newline>'' [Num 0],
        Load 0x7F000000100C 0, Printf ''memctrlcmd_errctrl=0x%x\<newline>'' [Num 0],
        Load 0x7F0000001008 0, Store 0x7F0000001008 0x10,
        Load 0x7F0000001008 0x10, Store 0x7F0000001008 0x30,
        Load 0x7F0000001008 0x30, Store 0x7F0000001008 0x20,
        Load 0x7F0000001008 0x20, Store 0x7F0000001008 0,
        Munmap 0x7F0000001000 0x1000 0, Close 3]"
proof -
  let ?h = umem_h_example and ?e = "env_example ''0x0\<newline>''"
  let ?c0 = "zero_context\<lparr>device_name := ''uio1''\<rparr>"
  let ?c1 = "zero_context\<lparr>device_name := ''uio1'', csr_mmap_offset := 0, csr_mmap_size := 0x1000\<rparr>"
  let ?w1 = "world_example\<lparr>trace := [Fopen ''/sys/class/uio/./name'',
       Fopen ''/sys/class/uio/uio0/name'', Fopen ''/sys/class/uio/uio1/name'']\<rparr>"
  obtain ctx w3 where o: "open_uio_device ?h ?e ?c1 (snd (get_uio_device_parameters ?h ?e ?c0 ?w1)) = (Ret ctx, w3)"
    and c: "ctx = zero_context\<lparr>device_name := ''uio1'', csr_mmap_offset := 0, csr_mmap_size := 0x1000,
           device_fd := 3, csr := 0x7F0000001000 + ucast (0 :: 32 word),
           memctrlstatus_magic := 0x7F0000001000 + ucast (0 :: 32 word),
           memctrlstatus_memory := 0x7F0000001000 + ucast (0 :: 32 word) + 7,
           memctrlstatus_battery := 0x7F0000001000 + ucast (0 :: 32 word) + 4,
           memctrlcmd_ledctrl := 0x7F0000001000 + ucast (0 :: 32 word) + 8,
           memctrlcmd_errctrl := 0x7F0000001000 + ucast (0 :: 32 word) + 12\<rparr>"
    and w3: "w3 = (snd (get_uio_device_parameters ?h ?e ?c0 ?w1))
                 \<lparr>trace := trace (snd (get_uio_device_parameters ?h ?e ?c0 ?w1)) @
                    [Open_rdwr ''/dev/uio1'' 3, Mmap 0x1000 3 0 0x7F0000001000]\<rparr>"
    using open_example [of "''0x0\<newline>''" 0] by blast
  have g: "get_uio_device_parameters ?h ?e ?c0 ?w1 = (Ret ?c1, snd (get_uio_device_parameters ?h ?e ?c0 ?w1))"
    by (simp add: get_example)
  have s: "0 \<le> LED_FAULT ?h" "LED_FAULT ?h < 32" by (simp_all add: umem_h_example_def)
  have u: "munmap_rc ?e (csr ctx) (ucast (csr_mmap_size ctx)) = 0"
    by (simp add: c env_example_def linux_munmap_def)
  obtain v1 v2 v3 v4 w' where
    m: "main ?h ?e world_example = (Ret EXIT_SUCCESS, w')" and
    v1: "set_led_value ?h (LED_FAULT ?h) (to_uchar (LED_ON ?h)) (mem w3 (memctrlcmd_ledctrl ctx)) = Some v1" and
    v2: "set_led_value ?h (LED_FAULT ?h) (to_uchar (LED_FLASH_7_0 ?h)) v1 = Some v2" and
    v3: "set_led_value ?h (LED_FAULT ?h) (to_uchar (LED_FLASH_3_5 ?h)) v2 = Some v3" and
    v4: "set_led_value ?h (LED_FAULT ?h) (to_uchar (LED_OFF ?h)) v3 = Some v4" and
    t: "trace w' = trace w3 @
       [Load (memctrlstatus_magic ctx) (mem w3 (memctrlstatus_magic ctx)),
        Printf ''memctrlstatus_magic=0x%x\<newline>'' [Num (unat (mem w3 (memctrlstatus_magic ctx)))],
        Load (memctrlstatus_memory ctx) (mem w3 (memctrlstatus_memory ctx)),
        Printf ''memctrlstatus_memory=0x%x\<newline>'' [Num (unat (mem w3 (memctrlstatus_memory ctx)))],
        Load (memctrlstatus_battery ctx) (mem w3 (memctrlstatus_battery ctx)),
        Printf ''memctrlstatus_battery=0x%x\<newline>'' [Num (unat (mem w3 (memctrlstatus_battery ctx)))],
        Load (memctrlcmd_ledctrl ctx) (mem w3 (memctrlcmd_ledctrl ctx)),
        Printf ''memctrlcmd_ledctrl=0x%x\<newline>'' [Num (unat (mem w3 (memctrlcmd_ledctrl ctx)))],
        Load (memctrlcmd_errctrl ctx) (mem w3 (memctrlcmd_errctrl ctx)),
        Printf ''memctrlcmd_errctrl=0x%x\<newline>'' [Num (unat (mem w3 (memctrlcmd_errctrl ctx)))],
        Load (memctrlcmd_ledctrl ctx) (mem w3 (memctrlcmd_ledctrl ctx)),
        Store (memctrlcmd_ledctrl ctx) v1,
        Load (memctrlcmd_ledctrl ctx) v1,
        Store (memctrlcmd_ledctrl ctx) v2,
        Load (memctrlcmd_ledctrl ctx) v2,
        Store (memctrlcmd_ledctrl ctx) v3,
        Load (memctrlcmd_ledctrl ctx) v3,
        Store (memctrlcmd_ledctrl ctx) v4,
        Munmap (csr ctx) (ucast (csr_mmap_size ctx)) 0,
        Close (device_fd ctx)]"
    using main_success [OF find_example g o s u] by blast
  have m3: "mem w3 = (\<lambda>a. 0)" by (simp add: w3 get_example world_example_def)
  have e1: "v1 = 0x10" using v1 by (simp add: m3 set_led_value_def umem_h_example_def to_uchar_def)
  have e2: "v2 = 0x30" using v2 by (simp add: e1 set_led_value_def umem_h_example_def to_uchar_def)
  have e3: "v3 = 0x20" using v3 by (simp add: e2 set_led_value_def umem_h_example_def to_uchar_def)
  have e4: "v4 = 0" using v4 by (simp add: e3 set_led_value_def umem_h_example_def to_uchar_def)
  have "trace w' = 
       [Fopen ''/sys/class/uio/./name'', Fopen ''/sys/class/uio/uio0/name'',
        Fopen ''/sys/class/uio/uio1/name'',
        Fopen ''/sys/class/uio/uio1/maps/map0/offset'',
        Fopen ''/sys/class/uio/uio1/maps/map0/size'',
        Open_rdwr ''/dev/uio1'' 3, Mmap 0x1000 3 0 0x7F0000001000,
        Load 0x7F0000001000 0, Printf ''memctrlstatus_magic=0x%x\<newline>'' [Num 0],
        Load 0x7F0000001007 0, Printf ''memctrlstatus_memory=0x%x\<newline>'' [Num 0],
        Load 0x7F0000001004 0, Printf ''memctrlstatus_battery=0x%x\<newline>'' [Num 0],
        Load 0x7F0000001008 0, Printf ''memctrlcmd_ledctrl=0x%x\<newline>'' [Num 0],
        Load 0x7F000000100C 0, Printf ''memctrlcmd_errctrl=0x%x\<newline>'' [Num 0],
        Load 0x7F0000001008 0, Store 0x7F0000001008 0x10,
        Load 0x7F0000001008 0x10, Store 0x7F0000001008 0x30,
        Load 0x7F0000001008 0x30, Store 0x7F0000001008 0x20,
        Load 0x7F0000001008 0x20, Store 0x7F0000001008 0,
        Munmap 0x7F0000001000 0x1000 0, Close 3]"
    by (simp add: t m3 e1 e2 e3 e4 c w3 get_example world_example_def)
  then show ?thesis using m by blast
qed

lemma read_uio_mapping_param_result:
  "read_uio_mapping_param e nm i pn w =
     (case mapping_param_value e nm i pn of
        None \<Rightarrow>
          (Exit EXIT_FAILURE,
           log (Printf ''Failed to read value from %s\<newline>'' [Str (mapping_param_pathname nm i pn)])
             (log (Fopen (mapping_param_pathname nm i pn)) w))
      | Some v \<Rightarrow> (Ret v, log (Fopen (mapping_param_pathname nm i pn)) w))"
  by (simp add: read_uio_mapping_param_def mapping_param_value_def mapping_param_pathname_def Let_def
        split: option.splits)

lemma get_offset_failure:
  assumes "mapping_param_value e (device_name c) (CSR_MAPPING_INDEX h) ''offset'' = None"
  shows "get_uio_device_parameters h e c w =
     (Exit EXIT_FAILURE,
      log (Printf ''Failed to read value from %s\<newline>''
             [Str (mapping_param_pathname (device_name c) (CSR_MAPPING_INDEX h) ''offset'')])
        (log (Fopen (mapping_param_pathname (device_name c) (CSR_MAPPING_INDEX h) ''offset'')) w))"
  using assms
  by (simp add: get_uio_device_parameters_def read_uio_mapping_param_result and_then_def)

lemma get_size_failure:
  assumes "mapping_param_value e (device_name c) (CSR_MAPPING_INDEX h) ''offset'' = Some off"
    and "mapping_param_value e (device_name c) (CSR_MAPPING_INDEX h) ''size'' = None"
  shows "get_uio_device_parameters h e c w =
     (Exit EXIT_FAILURE,
      log (Printf ''Failed to read value from %s\<newline>''
             [Str (mapping_param_pathname (device_name c) (CSR_MAPPING_INDEX h) ''size'')])
        (log (Fopen (mapping_param_pathname (device_name c) (CSR_MAPPING_INDEX h) ''size''))
           (log (Fopen (mapping_param_pathname (device_name c) (CSR_MAPPING_INDEX h) ''offset'')) w)))"
  using assms
  by (simp add: get_uio_device_parameters_def read_uio_mapping_param_result and_then_def)

lemma open_failure:
  assumes "open_rc e (device_pathname (device_name c)) = - 1"
  shows "open_uio_device h e c w =
     (Exit EXIT_FAILURE,
      log Perror
        (log (Printf ''Failed to open %s\<newline>'' [Str (device_pathname (device_name c))])
           (log (Open_rdwr (device_pathname (device_name c)) (- 1)) w)))"
  using assms by (simp add: open_uio_device_def device_pathname_def Let_def)

lemma mmap_failure:
  assumes "open_rc e (device_pathname (device_name c)) = fd" and "fd \<noteq> - 1"
    and "mmap_rc e (ucast (csr_mmap_size c)) fd (int (CSR_MAPPING_INDEX h) * getpagesize e) = MAP_FAILED"
  shows "open_uio_device h e c w =
     (Exit EXIT_FAILURE,
      log Perror
        (log (Printf ''Failed to map csr registers for %s\<newline>'' [Str (device_name c)])
           (log (Mmap (ucast (csr_mmap_size c)) fd (int (CSR_MAPPING_INDEX h) * getpagesize e) MAP_FAILED)
              (log (Open_rdwr (device_pathname (device_name c)) fd) w))))"
  using assms by (simp add: open_uio_device_def device_pathname_def Let_def)

lemma find_no_match:
  assumes "uio_dir e = Some ds" and "scan_entries h e ds w = (Ret None, w1)"
  shows "find_uio_device h e w =
     (Exit EXIT_FAILURE,
      log (Printf ''Failed to find entry for %s under %s\<newline>''
             [Str (DRIVER_NAME h), Str UIO_CLASS_ROOT]) w1)"
  using assms by (simp add: find_uio_device_def and_then_def)

lemma main_after_open:
  assumes f: "find_uio_device h e w = (Ret c0, w1)"
    and g: "get_uio_device_parameters h e c0 w1 = (Ret c1, w2)"
    and o: "open_uio_device h e c1 w2 = (Ret ctx, w3)"
    and s: "0 \<le> LED_FAULT h" "LED_FAULT h < 32"
    and u: "munmap_rc e (csr ctx) (ucast (csr_mmap_size ctx)) = rc"
  shows "\<exists>v1 v2 v3 v4 w'.
     main h e w = (if rc = 0 then Ret EXIT_SUCCESS else Exit EXIT_FAILURE, w') \<and>
     set_led_value h (LED_FAULT h) (to_uchar (LED_ON h)) (mem w3 (memctrlcmd_ledctrl ctx)) = Some v1 \<and>
     set_led_value h (LED_FAULT h) (to_uchar (LED_FLASH_7_0 h)) v1 = Some v2 \<and>
     set_led_value h (LED_FAULT h) (to_uchar (LED_FLASH_3_5 h)) v2 = Some v3 \<and>
     set_led_value h (LED_FAULT h) (to_uchar (LED_OFF h)) v3 = Some v4 \<and>
     trace w' = trace w3 @
       [Load (memctrlstatus_magic ctx) (mem w3 (memctrlstatus_magic ctx)),
        Printf ''memctrlstatus_magic=0x%x\<newline>'' [Num (unat (mem w3 (memctrlstatus_magic ctx)))],
        Load (memctrlstatus_memory ctx) (mem w3 (memctrlstatus_memory ctx)),
        Printf ''memctrlstatus_memory=0x%x\<newline>'' [Num (unat (mem w3 (memctrlstatus_memory ctx)))],
        Load (memctrlstatus_battery ctx) (mem w3 (memctrlstatus_battery ctx)),
        Printf ''memctrlstatus_battery=0x%x\<newline>'' [Num (unat (mem w3 (memctrlstatus_battery ctx)))],
        Load (memctrlcmd_ledctrl ctx) (mem w3 (memctrlcmd_ledctrl ctx)),
        Printf ''memctrlcmd_ledctrl=0x%x\<newline>'' [Num (unat (mem w3 (memctrlcmd_ledctrl ctx)))],
        Load (memctrlcmd_errctrl ctx) (mem w3 (memctrlcmd_errctrl ctx)),
        Printf ''memctrlcmd_errctrl=0x%x\<newline>'' [Num (unat (mem w3 (memctrlcmd_errctrl ctx)))],
        Load (memctrlcmd_ledctrl ctx) (mem w3 (memctrlcmd_ledctrl ctx)),
        Store (memctrlcmd_ledctrl ctx) v1,
        Load (memctrlcmd_ledctrl ctx) v1,
        Store (memctrlcmd_ledctrl ctx) v2,
        Load (memctrlcmd_ledctrl ctx) v2,
        Store (memctrlcmd_ledctrl ctx) v3,
        Load (memctrlcmd_ledctrl ctx) v3,
        Store (memctrlcmd_ledctrl ctx) v4,
        Munmap (csr ctx) (ucast (csr_mmap_size ctx)) rc,
        if rc = 0 then Close (device_fd ctx)
        else Printf ''Failed to munmap %s\<newline>'' [Str (device_name ctx)]]"
proof -
  let ?p = "memctrlcmd_ledctrl ctx"
  obtain v1 where v1: "set_led_value h (LED_FAULT h) (to_uchar (LED_ON h)) (mem w3 ?p) = Some v1"
    using set_led_value_defined [OF s] by blast
  obtain v2 where v2: "set_led_value h (LED_FAULT h) (to_uchar (LED_FLASH_7_0 h)) v1 = Some v2"
    using set_led_value_defined [OF s] by blast
  obtain v3 where v3: "set_led_value h (LED_FAULT h) (to_uchar (LED_FLASH_3_5 h)) v2 = Some v3"
    using set_led_value_defined [OF s] by blast
  obtain v4 where v4: "set_led_value h (LED_FAULT h) (to_uchar (LED_OFF h)) v3 = Some v4"
    using set_led_value_defined [OF s] by blast
  show ?thesis
    using u
    by (simp add: main_def and_then_def f g o v1 v2 v3 v4 print_register_def set_led_def
          close_uio_device_def Let_def log_def)
qed

lemma get_example_offset:
  "get_uio_device_parameters umem_h_example (env_example ''0x10\<newline>'')
     (zero_context\<lparr>device_name := ''uio1''\<rparr>) w =
   (Ret (zero_context\<lparr>device_name := ''uio1'', csr_mmap_offset := 0x10, csr_mmap_size := 0x1000\<rparr>),
    w\<lparr>trace := trace w @ [Fopen ''/sys/class/uio/uio1/maps/map0/offset'',
                            Fopen ''/sys/class/uio/uio1/maps/map0/size'']\<rparr>)"
  by (simp add: get_uio_device_parameters_def read_uio_mapping_param_def and_then_def example_defs
        decimal_zero)

lemmas path_defs = mapping_param_value_def mapping_param_pathname_def device_pathname_def
  snprintf_def PATH_MAX_def UIO_CLASS_ROOT_def decimal_zero

text \<open>
  Claim C7, as stated, on the example header, where \<^verbatim>\<open>LED_FLASH_3_5\<close> is the
  slow code 2 and \<^verbatim>\<open>LED_FLASH_7_0\<close> the fast code 3: the run succeeds and
  the states written to the fault indicator are 1, 3, 2, 0, that is ON,
  FLASH_FAST, FLASH_SLOW, OFF.
\<close>

theorem main_led_order_counterexample:
  "fst (main umem_h_example (env_example ''0x0\<newline>'') world_example) = Ret EXIT_SUCCESS \<and>
   led_states_written (LED_FAULT umem_h_example)
     (trace (snd (main umem_h_example (env_example ''0x0\<newline>'') world_example))) = [1, 3, 2, 0] \<and>
   led_states_written (LED_FAULT umem_h_example)
     (trace (snd (main umem_h_example (env_example ''0x0\<newline>'') world_example))) \<noteq>
     [to_uchar (LED_ON umem_h_example), to_uchar (LED_FLASH_3_5 umem_h_example),
      to_uchar (LED_FLASH_7_0 umem_h_example), to_uchar (LED_OFF umem_h_example)]"
proof -
  obtain w' where m: "main umem_h_example (env_example ''0x0\<newline>'') world_example = (Ret EXIT_SUCCESS, w')"
    and t: "trace w' =
       [Fopen ''/sys/class/uio/./name'', Fopen ''/sys/class/uio/uio0/name'',
        Fopen ''/sys/class/uio/uio1/name'',
        Fopen ''/sys/class/uio/uio1/maps/map0/offset'',
        Fopen ''/sys/class/uio/uio1/maps/map0/size'',
        Open_rdwr ''/dev/uio1'' 3, Mmap 0x1000 3 0 0x7F0000001000,
        Load 0x7F0000001000 0, Printf ''memctrlstatus_magic=0x%x\<newline>'' [Num 0],
        Load 0x7F0000001007 0, Printf ''memctrlstatus_memory=0x%x\<newline>'' [Num 0],
        Load 0x7F0000001004 0, Printf ''memctrlstatus_battery=0x%x\<newline>'' [Num 0],
        Load 0x7F0000001008 0, Printf ''memctrlcmd_ledctrl=0x%x\<newline>'' [Num 0],
        Load 0x7F000000100C 0, Printf ''memctrlcmd_errctrl=0x%x\<newline>'' [Num 0],
        Load 0x7F0000001008 0, Store 0x7F0000001008 0x10,
        Load 0x7F0000001008 0x10, Store 0x7F0000001008 0x30,
        Load 0x7F0000001008 0x30, Store 0x7F0000001008 0x20,
        Load 0x7F0000001008 0x20, Store 0x7F0000001008 0,
        Munmap 0x7F0000001000 0x1000 0, Close 3]"
    using main_example_success by blast
  have f: "LED_FAULT umem_h_example = 4" by (simp add: umem_h_example_def)
  have l: "led_states_written 4 (trace w') = [1, 3, 2, 0]"
    by (simp add: t led_states_written_def drop_bit_eq_div take_bit_eq_mod)
  show ?thesis
    by (simp add: m f l) (simp add: umem_h_example_def to_uchar_def)
qed

text \<open>
  Claim C7, amended. \<open>main\<close> ends at once with \<open>EXIT_FAILURE\<close>, which is
  not zero, and with a diagnostic as its last output (followed by
  \<^verbatim>\<open>perror\<close> for open and map) when the class root cannot be opened, when no
  entry matches, when the offset or the size attribute cannot be opened or
  converted, when the device cannot be opened and when it cannot be mapped.
  When these steps succeed and \<^verbatim>\<open>LED_FAULT\<close> is a shift count from 0 to 31,
  \<open>main\<close> prints the five registers (magic, memory, battery, LED control,
  error control), stores four states to the field of the fault indicator, in
  the order \<^verbatim>\<open>LED_ON\<close>, \<^verbatim>\<open>LED_FLASH_7_0\<close>, \<^verbatim>\<open>LED_FLASH_3_5\<close>, \<^verbatim>\<open>LED_OFF\<close>,
  and calls \<^verbatim>\<open>munmap\<close>; when that succeeds it closes the device and returns
  \<open>EXIT_SUCCESS\<close>, which is zero, and when it fails it prints a diagnostic
  and ends with \<open>EXIT_FAILURE\<close>.
\<close>

theorem main_exit_behaviour:
  "(uio_dir e = None \<longrightarrow>
      main h e w =
        (Exit EXIT_FAILURE, log (Printf ''Failed to open %s\<newline>'' [Str UIO_CLASS_ROOT]) w)) \<and>
   (uio_dir e = Some ds \<and> scan_entries h e ds w = (Ret None, w1) \<longrightarrow>
      main h e w =
        (Exit EXIT_FAILURE,
         log (Printf ''Failed to find entry for %s under %s\<newline>''
                [Str (DRIVER_NAME h), Str UIO_CLASS_ROOT]) w1)) \<and>
   (find_uio_device h e w = (Ret c0, w1) \<and>
    mapping_param_value e (device_name c0) (CSR_MAPPING_INDEX h) ''offset'' = None \<longrightarrow>
      main h e w =
        (Exit EXIT_FAILURE,
         log (Printf ''Failed to read value from %s\<newline>''
                [Str (mapping_param_pathname (device_name c0) (CSR_MAPPING_INDEX h) ''offset'')])
           (log (Fopen (mapping_param_pathname (device_name c0) (CSR_MAPPING_INDEX h) ''offset'')) w1))) \<and>
   (find_uio_device h e w = (Ret c0, w1) \<and>
    mapping_param_value e (device_name c0) (CSR_MAPPING_INDEX h) ''offset'' = Some off \<and>
    mapping_param_value e (device_name c0) (CSR_MAPPING_INDEX h) ''size'' = None \<longrightarrow>
      main h e w =
        (Exit EXIT_FAILURE,
         log (Printf ''Failed to read value from %s\<newline>''
                [Str (mapping_param_pathname (device_name c0) (CSR_MAPPING_INDEX h) ''size'')])
           (log (Fopen (mapping_param_pathname (device_name c0) (CSR_MAPPING_INDEX h) ''size''))
              (log (Fopen (mapping_param_pathname (device_name c0) (CSR_MAPPING_INDEX h) ''offset''))
                 w1)))) \<and>
   (find_uio_device h e w = (Ret c0, w1) \<and>
    get_uio_device_parameters h e c0 w1 = (Ret c1, w2) \<and>
    open_rc e (device_pathname (device_name c1)) = - 1 \<longrightarrow>
      main h e w =
        (Exit EXIT_FAILURE,
         log Perror
           (log (Printf ''Failed to open %s\<newline>'' [Str (device_pathname (device_name c1))])
              (log (Open_rdwr (device_pathname (device_name c1)) (- 1)) w2)))) \<and>
   (find_uio_device h e w = (Ret c0, w1) \<and>
    get_uio_device_parameters h e c0 w1 = (Ret c1, w2) \<and>
    open_rc e (device_pathname (device_name c1)) = fd \<and> fd \<noteq> - 1 \<and>
    mmap_rc e (ucast (csr_mmap_size c1)) fd (int (CSR_MAPPING_INDEX h) * getpagesize e) = MAP_FAILED \<longrightarrow>
      main h e w =
        (Exit EXIT_FAILURE,
         log Perror
           (log (Printf ''Failed to map csr registers for %s\<newline>'' [Str (device_name c1)])
              (log (Mmap (ucast (csr_mmap_size c1)) fd (int (CSR_MAPPING_INDEX h) * getpagesize e)
                      MAP_FAILED)
                 (log (Open_rdwr (device_pathname (device_name c1)) fd) w2))))) \<and>
   (find_uio_device h e w = (Ret c0, w1) \<and>
    get_uio_device_parameters h e c0 w1 = (Ret c1, w2) \<and>
    open_uio_device h e c1 w2 = (Ret ctx, w3) \<and>
    0 \<le> LED_FAULT h \<and> LED_FAULT h < 32 \<and>
    munmap_rc e (csr ctx) (ucast (csr_mmap_size ctx)) = rc \<longrightarrow>
      (\<exists>v1 v2 v3 v4 w'.
         main h e w = (if rc = 0 then Ret EXIT_SUCCESS else Exit EXIT_FAILURE, w') \<and>
         set_led_value h (LED_FAULT h) (to_uchar (LED_ON h)) (mem w3 (memctrlcmd_ledctrl ctx)) = Some v1 \<and>
         set_led_value h (LED_FAULT h) (to_uchar (LED_FLASH_7_0 h)) v1 = Some v2 \<and>
         set_led_value h (LED_FAULT h) (to_uchar (LED_FLASH_3_5 h)) v2 = Some v3 \<and>
         set_led_value h (LED_FAULT h) (to_uchar (LED_OFF h)) v3 = Some v4 \<and>
         trace w' = trace w3 @
           [Load (memctrlstatus_magic ctx) (mem w3 (memctrlstatus_magic ctx)),
            Printf ''memctrlstatus_magic=0x%x\<newline>'' [Num (unat (mem w3 (memctrlstatus_magic ctx)))],
            Load (memctrlstatus_memory ctx) (mem w3 (memctrlstatus_memory ctx)),
            Printf ''memctrlstatus_memory=0x%x\<newline>'' [Num (unat (mem w3 (memctrlstatus_memory ctx)))],
            Load (memctrlstatus_battery ctx) (mem w3 (memctrlstatus_battery ctx)),
            Printf ''memctrlstatus_battery=0x%x\<newline>'' [Num (unat (mem w3 (memctrlstatus_battery ctx)))],
            Load (memctrlcmd_ledctrl ctx) (mem w3 (memctrlcmd_ledctrl ctx)),
            Printf ''memctrlcmd_ledctrl=0x%x\<newline>'' [Num (unat (mem w3 (memctrlcmd_ledctrl ctx)))],
            Load (memctrlcmd_errctrl ctx) (mem w3 (memctrlcmd_errctrl ctx)),
            Printf ''memctrlcmd_errctrl=0x%x\<newline>'' [Num (unat (mem w3 (memctrlcmd_errctrl ctx)))],
            Load (memctrlcmd_ledctrl ctx) (mem w3 (memctrlcmd_ledctrl ctx)),
            Store (memctrlcmd_ledctrl ctx) v1,
            Load (memctrlcmd_ledctrl ctx) v1,
            Store (memctrlcmd_ledctrl ctx) v2,
            Load (memctrlcmd_ledctrl ctx) v2,
            Store (memctrlcmd_ledctrl ctx) v3,
            Load (memctrlcmd_ledctrl ctx) v3,
            Store (memctrlcmd_ledctrl ctx) v4,
            Munmap (csr ctx) (ucast (csr_mmap_size ctx)) rc,
            if rc = 0 then Close (device_fd ctx)
            else Printf ''Failed to munmap %s\<newline>'' [Str (device_name ctx)]])) \<and>
   EXIT_SUCCESS = 0 \<and> EXIT_FAILURE \<noteq> 0"
proof (intro conjI; (rule impI)?)
  assume "uio_dir e = None"
  then have "find_uio_device h e w =
        (Exit EXIT_FAILURE, log (Printf ''Failed to open %s\<newline>'' [Str UIO_CLASS_ROOT]) w)"
    by (simp add: find_uio_device_def)
  then show "main h e w =
        (Exit EXIT_FAILURE, log (Printf ''Failed to open %s\<newline>'' [Str UIO_CLASS_ROOT]) w)"
    by (simp add: main_def and_then_def)
next
  assume "uio_dir e = Some ds \<and> scan_entries h e ds w = (Ret None, w1)"
  then have "find_uio_device h e w =
     (Exit EXIT_FAILURE,
      log (Printf ''Failed to find entry for %s under %s\<newline>''
             [Str (DRIVER_NAME h), Str UIO_CLASS_ROOT]) w1)"
    using find_no_match by blast
  then show "main h e w =
        (Exit EXIT_FAILURE,
         log (Printf ''Failed to find entry for %s under %s\<newline>''
                [Str (DRIVER_NAME h), Str UIO_CLASS_ROOT]) w1)"
    by (simp add: main_def and_then_def)
next
  assume a: "find_uio_device h e w = (Ret c0, w1) \<and>
    mapping_param_value e (device_name c0) (CSR_MAPPING_INDEX h) ''offset'' = None"
  then show "main h e w =
        (Exit EXIT_FAILURE,
         log (Printf ''Failed to read value from %s\<newline>''
                [Str (mapping_param_pathname (device_name c0) (CSR_MAPPING_INDEX h) ''offset'')])
           (log (Fopen (mapping_param_pathname (device_name c0) (CSR_MAPPING_INDEX h) ''offset'')) w1))"
    using get_offset_failure [of e c0 h w1] by (simp add: main_def and_then_def)
next
  assume a: "find_uio_device h e w = (Ret c0, w1) \<and>
    mapping_param_value e (device_name c0) (CSR_MAPPING_INDEX h) ''offset'' = Some off \<and>
    mapping_param_value e (device_name c0) (CSR_MAPPING_INDEX h) ''size'' = None"
  then show "main h e w =
        (Exit EXIT_FAILURE,
         log (Printf ''Failed to read value from %s\<newline>''
                [Str (mapping_param_pathname (device_name c0) (CSR_MAPPING_INDEX h) ''size'')])
           (log (Fopen (mapping_param_pathname (device_name c0) (CSR_MAPPING_INDEX h) ''size''))
              (log (Fopen (mapping_param_pathname (device_name c0) (CSR_MAPPING_INDEX h) ''offset''))
                 w1)))"
    using get_size_failure [of e c0 h off w1] by (simp add: main_def and_then_def)
next
  assume a: "find_uio_device h e w = (Ret c0, w1) \<and>
    get_uio_device_parameters h e c0 w1 = (Ret c1, w2) \<and>
    open_rc e (device_pathname (device_name c1)) = - 1"
  then show "main h e w =
        (Exit EXIT_FAILURE,
         log Perror
           (log (Printf ''Failed to open %s\<newline>'' [Str (device_pathname (device_name c1))])
              (log (Open_rdwr (device_pathname (device_name c1)) (- 1)) w2)))"
    using open_failure [of e c1 h w2] by (simp add: main_def and_then_def)
next
  assume a: "find_uio_device h e w = (Ret c0, w1) \<and>
    get_uio_device_parameters h e c0 w1 = (Ret c1, w2) \<and>
    open_rc e (device_pathname (device_name c1)) = fd \<and> fd \<noteq> - 1 \<and>
    mmap_rc e (ucast (csr_mmap_size c1)) fd (int (CSR_MAPPING_INDEX h) * getpagesize e) = MAP_FAILED"
  then show "main h e w =
        (Exit EXIT_FAILURE,
         log Perror
           (log (Printf ''Failed to map csr registers for %s\<newline>'' [Str (device_name c1)])
              (log (Mmap (ucast (csr_mmap_size c1)) fd (int (CSR_MAPPING_INDEX h) * getpagesize e)
                      MAP_FAILED)
                 (log (Open_rdwr (device_pathname (device_name c1)) fd) w2))))"
    using mmap_failure [of e c1 fd h w2] by (simp add: main_def and_then_def)
next
  assume a: "find_uio_device h e w = (Ret c0, w1) \<and>
    get_uio_device_parameters h e c0 w1 = (Ret c1, w2) \<and>
    open_uio_device h e c1 w2 = (Ret ctx, w3) \<and>
    0 \<le> LED_FAULT h \<and> LED_FAULT h < 32 \<and>
    munmap_rc e (csr ctx) (ucast (csr_mmap_size ctx)) = rc"
  then have f: "find_uio_device h e w = (Ret c0, w1)"
    and g: "get_uio_device_parameters h e c0 w1 = (Ret c1, w2)"
    and o: "open_uio_device h e c1 w2 = (Ret ctx, w3)"
    and s: "0 \<le> LED_FAULT h" "LED_FAULT h < 32"
    and u: "munmap_rc e (csr ctx) (ucast (csr_mmap_size ctx)) = rc"
    by simp_all
  show "\<exists>v1 v2 v3 v4 w'.
         main h e w = (if rc = 0 then Ret EXIT_SUCCESS else Exit EXIT_FAILURE, w') \<and>
         set_led_value h (LED_FAULT h) (to_uchar (LED_ON h)) (mem w3 (memctrlcmd_ledctrl ctx)) = Some v1 \<and>
         set_led_value h (LED_FAULT h) (to_uchar (LED_FLASH_7_0 h)) v1 = Some v2 \<and>
         set_led_value h (LED_FAULT h) (to_uchar (LED_FLASH_3_5 h)) v2 = Some v3 \<and>
         set_led_value h (LED_FAULT h) (to_uchar (LED_OFF h)) v3 = Some v4 \<and>
         trace w' = trace w3 @
           [Load (memctrlstatus_magic ctx) (mem w3 (memctrlstatus_magic ctx)),
            Printf ''memctrlstatus_magic=0x%x\<newline>'' [Num (unat (mem w3 (memctrlstatus_magic ctx)))],
            Load (memctrlstatus_memory ctx) (mem w3 (memctrlstatus_memory ctx)),
            Printf ''memctrlstatus_memory=0x%x\<newline>'' [Num (unat (mem w3 (memctrlstatus_memory ctx)))],
            Load (memctrlstatus_battery ctx) (mem w3 (memctrlstatus_battery ctx)),
            Printf ''memctrlstatus_battery=0x%x\<newline>'' [Num (unat (mem w3 (memctrlstatus_battery ctx)))],
            Load (memctrlcmd_ledctrl ctx) (mem w3 (memctrlcmd_ledctrl ctx)),
            Printf ''memctrlcmd_ledctrl=0x%x\<newline>'' [Num (unat (mem w3 (memctrlcmd_ledctrl ctx)))],
            Load (memctrlcmd_errctrl ctx) (mem w3 (memctrlcmd_errctrl ctx)),
            Printf ''memctrlcmd_errctrl=0x%x\<newline>'' [Num (unat (mem w3 (memctrlcmd_errctrl ctx)))],
            Load (memctrlcmd_ledctrl ctx) (mem w3 (memctrlcmd_ledctrl ctx)),
            Store (memctrlcmd_ledctrl ctx) v1,
            Load (memctrlcmd_ledctrl ctx) v1,
            Store (memctrlcmd_ledctrl ctx) v2,
            Load (memctrlcmd_ledctrl ctx) v2,
            Store (memctrlcmd_ledctrl ctx) v3,
            Load (memctrlcmd_ledctrl ctx) v3,
            Store (memctrlcmd_ledctrl ctx) v4,
            Munmap (csr ctx) (ucast (csr_mmap_size ctx)) rc,
            if rc = 0 then Close (device_fd ctx)
            else Printf ''Failed to munmap %s\<newline>'' [Str (device_name ctx)]]"
    by (rule main_after_open [OF f g o s u])
next
  show "EXIT_SUCCESS = 0" by (simp add: EXIT_SUCCESS_def)
next
  show "EXIT_FAILURE \<noteq> 0" by (simp add: EXIT_FAILURE_def)
qed

theorem main_exit_behaviour_witness:
  "fst (main umem_h_example ((env_example ''0x0\<newline>'')\<lparr>uio_dir := None\<rparr>) world_example) =
     Exit EXIT_FAILURE \<and>
   fst (main umem_h_example
          ((env_example ''0x0\<newline>'')\<lparr>uio_dir := Some [\<lparr>d_name = ''.'', d_type = DT_DIR\<rparr>]\<rparr>)
          world_example) = Exit EXIT_FAILURE \<and>
   fst (main umem_h_example (env_example ''zz'') world_example) = Exit EXIT_FAILURE \<and>
   fst (main umem_h_example
          ((env_example ''0x0\<newline>'')\<lparr>fscanf_0x_x := map_of [(''0x0\<newline>'', 0)]\<rparr>)
          world_example) = Exit EXIT_FAILURE \<and>
   fst (main umem_h_example ((env_example ''0x0\<newline>'')\<lparr>open_rc := (\<lambda>p. - 1)\<rparr>) world_example) =
     Exit EXIT_FAILURE \<and>
   fst (main umem_h_example
          ((env_example ''0x0\<newline>'')\<lparr>mmap_rc := (\<lambda>len fd off. MAP_FAILED)\<rparr>) world_example) =
     Exit EXIT_FAILURE \<and>
   0 \<le> LED_FAULT umem_h_example \<and> LED_FAULT umem_h_example < 32 \<and>
   fst (main umem_h_example (env_example ''0x0\<newline>'') world_example) = Ret EXIT_SUCCESS \<and>
   fst (main umem_h_example (env_example ''0x10\<newline>'') world_example) = Exit EXIT_FAILURE"
proof -
  let ?h = umem_h_example and ?e = "env_example ''0x0\<newline>''"
  let ?dot = "\<lparr>d_name = ''.'', d_type = DT_DIR\<rparr>"
  let ?c0 = "zero_context\<lparr>device_name := ''uio1''\<rparr>"
  let ?c1 = "zero_context\<lparr>device_name := ''uio1'', csr_mmap_offset := 0, csr_mmap_size := 0x1000\<rparr>"
  let ?c1' = "zero_context\<lparr>device_name := ''uio1'', csr_mmap_offset := 0x10, csr_mmap_size := 0x1000\<rparr>"
  let ?w1 = "world_example\<lparr>trace := [Fopen ''/sys/class/uio/./name'',
       Fopen ''/sys/class/uio/uio0/name'', Fopen ''/sys/class/uio/uio1/name'']\<rparr>"
  let ?w2 = "?w1\<lparr>trace := trace ?w1 @ [Fopen ''/sys/class/uio/uio1/maps/map0/offset'',
                            Fopen ''/sys/class/uio/uio1/maps/map0/size'']\<rparr>"
  note T1 = main_exit_behaviour [THEN conjunct1, THEN mp]
  note T2 = main_exit_behaviour [THEN conjunct2, THEN conjunct1, THEN mp]
  note T3 = main_exit_behaviour [THEN conjunct2, THEN conjunct2, THEN conjunct1, THEN mp]
  note T4 = main_exit_behaviour [THEN conjunct2, THEN conjunct2, THEN conjunct2, THEN conjunct1, THEN mp]
  note T5 = main_exit_behaviour [THEN conjunct2, THEN conjunct2, THEN conjunct2, THEN conjunct2, THEN conjunct1,
    THEN mp]
  note T6 = main_exit_behaviour [THEN conjunct2, THEN conjunct2, THEN conjunct2, THEN conjunct2, THEN conjunct2,
    THEN conjunct1, THEN mp]
  note T7 = main_exit_behaviour [THEN conjunct2, THEN conjunct2, THEN conjunct2, THEN conjunct2, THEN conjunct2,
    THEN conjunct2, THEN conjunct1, THEN mp]
  \<comment> \<open>the class root cannot be opened\<close>
  have "uio_dir (?e\<lparr>uio_dir := None\<rparr>) = None" by simp
  then have A: "fst (main ?h (?e\<lparr>uio_dir := None\<rparr>) world_example) = Exit EXIT_FAILURE"
    using T1 [of "?e\<lparr>uio_dir := None\<rparr>" ?h world_example] by (simp only: fst_conv)
  \<comment> \<open>no entry matches\<close>
  let ?e2 = "?e\<lparr>uio_dir := Some [?dot]\<rparr>"
  have b1: "uio_dir ?e2 = Some [?dot] \<and> scan_entries ?h ?e2 [?dot] world_example =
      (Ret None, log (Fopen ''/sys/class/uio/./name'') world_example)"
    by (simp add: example_defs)
  have B: "fst (main ?h ?e2 world_example) = Exit EXIT_FAILURE"
    using T2 [OF b1] by (simp only: fst_conv)
  \<comment> \<open>the offset attribute is not a hexadecimal number\<close>
  have c1: "mapping_param_value (env_example ''zz'') (device_name ?c0) (CSR_MAPPING_INDEX ?h) ''offset'' = None"
    by (simp add: path_defs env_example_def umem_h_example_def)
  have C: "fst (main ?h (env_example ''zz'') world_example) = Exit EXIT_FAILURE"
    using T3 [OF conjI [OF find_example [of "''zz''"] c1]] by (simp only: fst_conv)
  \<comment> \<open>the size attribute is not converted\<close>
  let ?e4 = "?e\<lparr>fscanf_0x_x := map_of [(''0x0\<newline>'', 0)]\<rparr>"
  have d0: "find_uio_device ?h ?e4 world_example = (Ret ?c0, ?w1)"
    using find_uio_device_files [of ?e4 ?e ?h world_example] find_example [of "''0x0\<newline>''"]
    by simp
  have d1: "mapping_param_value ?e4 (device_name ?c0) (CSR_MAPPING_INDEX ?h) ''offset'' = Some 0"
    by (simp add: path_defs env_example_def umem_h_example_def)
  have d2: "mapping_param_value ?e4 (device_name ?c0) (CSR_MAPPING_INDEX ?h) ''size'' = None"
    by (simp add: path_defs env_example_def umem_h_example_def)
  have D: "fst (main ?h ?e4 world_example) = Exit EXIT_FAILURE"
    using T4 [OF conjI [OF d0 conjI [OF d1 d2]]] by (simp only: fst_conv)
  \<comment> \<open>the device cannot be opened\<close>
  let ?e5 = "?e\<lparr>open_rc := (\<lambda>p. - 1)\<rparr>"
  have e0: "find_uio_device ?h ?e5 world_example = (Ret ?c0, ?w1)"
    using find_uio_device_files [of ?e5 ?e ?h world_example] find_example [of "''0x0\<newline>''"]
    by simp
  have e1: "get_uio_device_parameters ?h ?e5 ?c0 ?w1 = (Ret ?c1, ?w2)"
    using get_uio_device_parameters_files [of ?e5 ?e ?h ?c0 ?w1] get_example [of ?w1]
    by simp
  have e2: "open_rc ?e5 (device_pathname (device_name ?c1)) = - 1" by simp
  have E: "fst (main ?h ?e5 world_example) = Exit EXIT_FAILURE"
    using T5 [OF conjI [OF e0 conjI [OF e1 e2]]] by (simp only: fst_conv)
  \<comment> \<open>the registers cannot be mapped\<close>
  let ?e6 = "?e\<lparr>mmap_rc := (\<lambda>len fd off. MAP_FAILED)\<rparr>"
  have f0: "find_uio_device ?h ?e6 world_example = (Ret ?c0, ?w1)"
    using find_uio_device_files [of ?e6 ?e ?h world_example] find_example [of "''0x0\<newline>''"]
    by simp
  have f1: "get_uio_device_parameters ?h ?e6 ?c0 ?w1 = (Ret ?c1, ?w2)"
    using get_uio_device_parameters_files [of ?e6 ?e ?h ?c0 ?w1] get_example [of ?w1]
    by simp
  have f2: "open_rc ?e6 (device_pathname (device_name ?c1)) = 3"
    by (simp add: path_defs env_example_def)
  have f3: "(3 :: int) \<noteq> - 1" by simp
  have f4: "mmap_rc ?e6 (ucast (csr_mmap_size ?c1)) 3 (int (CSR_MAPPING_INDEX ?h) * getpagesize ?e6) = MAP_FAILED"
    by simp
  have F: "fst (main ?h ?e6 world_example) = Exit EXIT_FAILURE"
    using T6 [OF conjI [OF f0 conjI [OF f1 conjI [OF f2 conjI [OF f3 f4]]]]] by (simp only: fst_conv)
  \<comment> \<open>every step succeeds\<close>
  have s: "0 \<le> LED_FAULT ?h" "LED_FAULT ?h < 32" by (simp_all add: umem_h_example_def)
  have g1: "get_uio_device_parameters ?h ?e ?c0 ?w1 = (Ret ?c1, ?w2)"
    by (rule get_example)
  obtain ctx w3 where g2: "open_uio_device ?h ?e ?c1 ?w2 = (Ret ctx, w3)"
    and gx: "csr ctx = 0x7F0000001000" "csr_mmap_size ctx = 0x1000"
    using open_example [of "''0x0\<newline>''" 0 ?w2] by (simp add: zero_context_def)
  have g3: "munmap_rc ?e (csr ctx) (ucast (csr_mmap_size ctx)) = 0"
    by (simp add: gx env_example_def linux_munmap_def)
  obtain w' where "main ?h ?e world_example = (if (0 :: int) = 0 then Ret EXIT_SUCCESS else Exit EXIT_FAILURE, w')"
    using T7 [OF conjI [OF find_example [of "''0x0\<newline>''"]
                conjI [OF g1 conjI [OF g2 conjI [OF s(1) conjI [OF s(2) g3]]]]]]
    by blast
  then have G: "fst (main ?h ?e world_example) = Ret EXIT_SUCCESS" by simp
  \<comment> \<open>every step succeeds but the published offset is not zero\<close>
  let ?e8 = "env_example ''0x10\<newline>''"
  have h1: "get_uio_device_parameters ?h ?e8 ?c0 ?w1 = (Ret ?c1', ?w2)"
    by (rule get_example_offset)
  obtain ctx' w3' where h2: "open_uio_device ?h ?e8 ?c1' ?w2 = (Ret ctx', w3')"
    and hx: "csr ctx' = 0x7F0000001010" "csr_mmap_size ctx' = 0x1000"
    using open_example [of "''0x10\<newline>''" "0x10" ?w2] by (simp add: zero_context_def)
  have h3: "munmap_rc ?e8 (csr ctx') (ucast (csr_mmap_size ctx')) = - 1"
    by (simp add: hx env_example_def linux_munmap_def)
  obtain w'' where "main ?h ?e8 world_example = (if (- 1 :: int) = 0 then Ret EXIT_SUCCESS else Exit EXIT_FAILURE, w'')"
    using T7 [OF conjI [OF find_example [of "''0x10\<newline>''"]
                conjI [OF h1 conjI [OF h2 conjI [OF s(1) conjI [OF s(2) h3]]]]]]
    by blast
  then have H: "fst (main ?h ?e8 world_example) = Exit EXIT_FAILURE" by simp
  show ?thesis using A B C D E F G H s by (simp only: simp_thms)
qed

end
